theory Spec2Isabelle
  imports Complex_Main "HOL-Library.Sublist"
begin

section \<open>Python primitives used by the transcription front end\<close>

text \<open>
  The repository is a Python front end for the Whisper speech-to-text engine:
  \<^verbatim>\<open>src/VoicetoText.py\<close> holds a Tk application class \<^verbatim>\<open>WhisperTranscriptionApp\<close> and a
  second, module-level copy of the transcription functions for the command line;
  \<^verbatim>\<open>src/app.py\<close> holds a Flask handler. This section models the few Python library operations
  the code relies on.

  Numbers of seconds are Python floats in the source. They are modelled as \<^typ>\<open>real\<close> with
  exact arithmetic: rounding of floating-point operations is outside the model.
\<close>

text \<open>\<^verbatim>\<open>str(n)\<close> for a non-negative integer: its decimal digits.\<close>

definition digit_char :: "nat \<Rightarrow> char" where
  "digit_char n = ''0123456789'' ! n"

fun str_nat :: "nat \<Rightarrow> string" where
  "str_nat n = (if n < 10 then [digit_char n] else str_nat (n div 10) @ [digit_char (n mod 10)])"

declare str_nat.simps [simp del]

text \<open>
  \<^verbatim>\<open>f"{i:02d}"\<close> and \<^verbatim>\<open>f"{i:03d}"\<close>: the format specification \<^verbatim>\<open>0wd\<close> pads with zeros to a
  minimum width \<open>w\<close>; the sign of a negative number comes first and counts towards the width
  (\<^verbatim>\<open>f"{-5:03d}" == "-05"\<close>, \<^verbatim>\<open>f"{-500:03d}" == "-500"\<close>).
\<close>

definition format_d :: "nat \<Rightarrow> int \<Rightarrow> string" where
  "format_d w i =
     (let sign = (if i < 0 then ''-'' else '''');
          ds = str_nat (nat \<bar>i\<bar>)
      in sign @ replicate (w - length sign - length ds) (CHR ''0'') @ ds)"

text \<open>\<^verbatim>\<open>int(x)\<close> on a float truncates towards zero.\<close>

definition py_int :: "real \<Rightarrow> int" where
  "py_int x = (if x < 0 then - \<lfloor>- x\<rfloor> else \<lfloor>x\<rfloor>)"

text \<open>
  \<^verbatim>\<open>x % m\<close> on floats, for the positive constants \<open>m\<close> the code uses: the result takes the sign
  of the divisor, that is \<open>x - m * floor (x / m)\<close>.
\<close>

definition py_mod :: "real \<Rightarrow> real \<Rightarrow> real" where
  "py_mod x m = x - m * of_int \<lfloor>x / m\<rfloor>"

text \<open>
  \<^verbatim>\<open>str.strip()\<close> removes leading and trailing whitespace. Text is modelled as a list of 8-bit
  characters, so the whitespace characters are the ASCII ones that Python's \<^verbatim>\<open>str.isspace\<close>
  accepts: tab, line feed, vertical tab, form feed, carriage return, the four separators
  \<^verbatim>\<open>0x1C\<close> to \<^verbatim>\<open>0x1F\<close>, and the space.
\<close>

definition isspace :: "char \<Rightarrow> bool" where
  "isspace c \<longleftrightarrow> c \<in> set [CHR 0x09, CHR 0x0A, CHR 0x0B, CHR 0x0C, CHR 0x0D,
                         CHR 0x1C, CHR 0x1D, CHR 0x1E, CHR 0x1F, CHR '' '']"

definition strip :: "string \<Rightarrow> string" where
  "strip s = rev (dropWhile isspace (rev (dropWhile isspace s)))"

section \<open>Transcription results\<close>

text \<open>
  The value returned by \<^verbatim>\<open>model.transcribe\<close> is a dictionary with the keys \<^verbatim>\<open>"text"\<close> and
  \<^verbatim>\<open>"segments"\<close>; each segment is a dictionary with the keys \<^verbatim>\<open>"start"\<close>, \<^verbatim>\<open>"end"\<close> and
  \<^verbatim>\<open>"text"\<close> (the other keys are not read by the code).
\<close>

record segment =
  seg_start :: real
  seg_end :: real
  seg_text :: string

record transcription_result =
  res_text :: string
  res_segments :: "segment list"

section \<open>Paths\<close>

text \<open>
  \<^verbatim>\<open>os.path\<close> is modelled as on a POSIX system (\<^verbatim>\<open>posixpath\<close>): the separator is \<^verbatim>\<open>/\<close>.
  \<^verbatim>\<open>str.lower\<close> is modelled on ASCII letters.
\<close>

definition lower_char :: "char \<Rightarrow> char" where
  "lower_char c =
     (if 65 \<le> (of_char c :: nat) \<and> (of_char c :: nat) \<le> 90 then char_of ((of_char c :: nat) + 32)
      else c)"

definition lower :: "string \<Rightarrow> string" where
  "lower s = map lower_char s"

definition endswith :: "string \<Rightarrow> string \<Rightarrow> bool" where
  "endswith s suf \<longleftrightarrow> suffix suf s"

text \<open>\<^verbatim>\<open>s.rfind(c)\<close>: the index of the last occurrence of \<open>c\<close>, or \<open>-1\<close>.\<close>

fun rfind_from :: "char \<Rightarrow> string \<Rightarrow> int \<Rightarrow> int \<Rightarrow> int" where
  "rfind_from c [] i found = found"
| "rfind_from c (x # xs) i found = rfind_from c xs (i + 1) (if x = c then i else found)"

definition rfind :: "char \<Rightarrow> string \<Rightarrow> int" where
  "rfind c s = rfind_from c s 0 (- 1)"

text \<open>
  \<^verbatim>\<open>os.path.splitext(p)[0]\<close>: the path without its extension. The extension starts at the last
  dot of the last component, unless that component consists of leading dots only up to there.
\<close>

definition splitext_root :: "string \<Rightarrow> string" where
  "splitext_root p =
     (let sepIndex = rfind (CHR ''/'') p;
          dotIndex = rfind (CHR ''.'') p
      in if dotIndex > sepIndex
            \<and> (\<exists>c \<in> set (take (nat (dotIndex - (sepIndex + 1))) (drop (nat (sepIndex + 1)) p)).
                   c \<noteq> CHR ''.'')
         then take (nat dotIndex) p
         else p)"

text \<open>\<^verbatim>\<open>os.path.join(a, b)\<close> for two components.\<close>

definition path_join :: "string \<Rightarrow> string \<Rightarrow> string" where
  "path_join a b =
     (if b \<noteq> [] \<and> hd b = CHR ''/'' then b
      else if a = [] \<or> endswith a ''/'' then a @ b
      else a @ ''/'' @ b)"

definition basename :: "string \<Rightarrow> string" where
  "basename p = drop (nat (rfind (CHR ''/'') p + 1)) p"

section \<open>The world outside the program\<close>

text \<open>
  The inference engine, the graphics hardware and the file system are external. Their answers
  are parameters of the model, collected in a record: whether \<^verbatim>\<open>torch.cuda.is_available()\<close>
  holds, whether \<^verbatim>\<open>whisper.load_model\<close> raises for a model name and a device, what
  \<^verbatim>\<open>model.transcribe\<close> returns or raises, whether \<^verbatim>\<open>open(path, "w")\<close> raises, what
  \<^verbatim>\<open>json.dump(result, f, indent=4)\<close> writes, and what \<^verbatim>\<open>os.path.isdir\<close>,
  \<^verbatim>\<open>os.path.isfile\<close> and \<^verbatim>\<open>os.listdir\<close> answer.

  An exception is a value with the name of its class and its message (\<^verbatim>\<open>str(e)\<close>); a call that
  may raise returns a sum, \<open>Inl\<close> for the exception. Every exception of the model is an instance
  of \<^verbatim>\<open>Exception\<close>, so \<^verbatim>\<open>except Exception\<close> catches it.
\<close>

datatype exc = Exc (exc_class: string) (exc_str: string)

datatype whisper_model = Model (model_name_of: string) (device_of: string)

text \<open>
  The keyword arguments of \<^verbatim>\<open>model.transcribe\<close>: the dictionary \<^verbatim>\<open>transcribe_options\<close> always
  has the key \<^verbatim>\<open>"fp16"\<close> and has the key \<^verbatim>\<open>"language"\<close> only when a language was given.
\<close>

record transcribe_options =
  fp16 :: bool
  language_opt :: "string option"

record world =
  cuda_is_available :: bool
  load_model_raises :: "string \<Rightarrow> string \<Rightarrow> exc option"
  model_transcribe :: "whisper_model \<Rightarrow> string \<Rightarrow> transcribe_options \<Rightarrow> exc + transcription_result"
  open_raises :: "string \<Rightarrow> exc option"
  json_dump :: "transcription_result \<Rightarrow> string"
  isdir :: "string \<Rightarrow> bool"
  isfile :: "string \<Rightarrow> bool"
  listdir :: "string \<Rightarrow> exc + string list"

definition load_model :: "world \<Rightarrow> string \<Rightarrow> string \<Rightarrow> exc + whisper_model" where
  "load_model w model_name device =
     (case load_model_raises w model_name device of
        Some e \<Rightarrow> Inl e
      | None \<Rightarrow> Inr (Model model_name device))"

text \<open>
  \<^verbatim>\<open>with open(output_file, "w", encoding="utf-8") as f: ...\<close> either raises or replaces the
  content of the file by what the body writes. The file system is a map from paths to contents.
\<close>

type_synonym disk = "string \<rightharpoonup> string"

definition write_file :: "world \<Rightarrow> string \<Rightarrow> string \<Rightarrow> disk \<Rightarrow> exc + disk" where
  "write_file w output_file content d =
     (case open_raises w output_file of
        Some e \<Rightarrow> Inl e
      | None \<Rightarrow> Inr (d(output_file \<mapsto> content)))"

text \<open>
  \<^verbatim>\<open>transcribe_options = {"fp16": device == "cuda"}\<close>, then
  \<^verbatim>\<open>if language: transcribe_options["language"] = language\<close>: a language that is \<^verbatim>\<open>None\<close> or
  the empty string is not passed on.
\<close>

definition make_transcribe_options :: "string \<Rightarrow> string option \<Rightarrow> transcribe_options" where
  "make_transcribe_options device language =
     \<lparr>fp16 = (device = ''cuda''),
      language_opt = (case language of None \<Rightarrow> None | Some l \<Rightarrow> if l = [] then None else Some l)\<rparr>"

section \<open>Timestamps\<close>

text \<open>
  The module-level function (lines 491 to 501 of \<^verbatim>\<open>VoicetoText.py\<close>):
  \<^verbatim>\<open>
  def format_timestamp(seconds, output_format):
      hours = int(seconds / 3600)
      minutes = int((seconds % 3600) / 60)
      secs = int(seconds % 60)
      millisecs = int((seconds - int(seconds)) * 1000)
      if output_format == "srt":
          return f"{hours:02d}:{minutes:02d}:{secs:02d},{millisecs:03d}"
      else:  # vtt
          return f"{hours:02d}:{minutes:02d}:{secs:02d}.{millisecs:03d}"
  \<close>
\<close>

definition format_timestamp :: "real \<Rightarrow> string \<Rightarrow> string" where
  "format_timestamp seconds output_format =
     (let hours = py_int (seconds / 3600);
          minutes = py_int (py_mod seconds 3600 / 60);
          secs = py_int (py_mod seconds 60);
          millisecs = py_int ((seconds - of_int (py_int seconds)) * 1000)
      in if output_format = ''srt''
         then format_d 2 hours @ '':'' @ format_d 2 minutes @ '':'' @ format_d 2 secs
                @ '','' @ format_d 3 millisecs
         else format_d 2 hours @ '':'' @ format_d 2 minutes @ '':'' @ format_d 2 secs
                @ ''.'' @ format_d 3 millisecs)"

text \<open>
  The method of the application class (lines 385 to 395), a second copy of the same code:
  \<^verbatim>\<open>
  def format_timestamp(self, seconds, output_format):
      hours = int(seconds / 3600)
      minutes = int((seconds % 3600) / 60)
      secs = int(seconds % 60)
      millisecs = int((seconds - int(seconds)) * 1000)
      if output_format == "srt":
          return f"{hours:02d}:{minutes:02d}:{secs:02d},{millisecs:03d}"
      else:  # vtt
          return f"{hours:02d}:{minutes:02d}:{secs:02d}.{millisecs:03d}"
  \<close>
\<close>

definition App_format_timestamp :: "real \<Rightarrow> string \<Rightarrow> string" where
  "App_format_timestamp seconds output_format =
     (let hours = py_int (seconds / 3600);
          minutes = py_int (py_mod seconds 3600 / 60);
          secs = py_int (py_mod seconds 60);
          millisecs = py_int ((seconds - of_int (py_int seconds)) * 1000)
      in if output_format = ''srt''
         then format_d 2 hours @ '':'' @ format_d 2 minutes @ '':'' @ format_d 2 secs
                @ '','' @ format_d 3 millisecs
         else format_d 2 hours @ '':'' @ format_d 2 minutes @ '':'' @ format_d 2 secs
                @ ''.'' @ format_d 3 millisecs)"

section \<open>The command-line functions\<close>

text \<open>
  The state of a command-line run: the lines printed so far and the file system.
\<close>

record cli =
  stdout :: "string list"
  cli_disk :: disk

definition print :: "string \<Rightarrow> cli \<Rightarrow> cli" where
  "print message c = c\<lparr>stdout := stdout c @ [message]\<rparr>"

text \<open>
  The loop over the segments in the module-level \<^verbatim>\<open>transcribe_audio\<close> (lines 469 to 482). The
  argument \<open>f\<close> is what has been written to the open file so far, \<open>i\<close> the index that
  \<^verbatim>\<open>enumerate\<close> gives to the next segment.
  \<^verbatim>\<open>
  for i, segment in enumerate(segments):
      start_time = format_timestamp(segment["start"], output_format)
      end_time = format_timestamp(segment["end"], output_format)
      text = segment["text"].strip()
      if output_format == "srt":
          f.write(f"{i+1}\n")
          f.write(f"{start_time} --> {end_time}\n")
          f.write(f"{text}\n\n")
      else:  # vtt
          if i == 0:
              f.write("WEBVTT\n\n")
          f.write(f"{start_time} --> {end_time}\n")
          f.write(f"{text}\n\n")
  \<close>
\<close>

fun write_segments :: "string \<Rightarrow> nat \<Rightarrow> segment list \<Rightarrow> string \<Rightarrow> string" where
  "write_segments output_format i [] f = f"
| "write_segments output_format i (segment # segments) f =
     (let start_time = format_timestamp (seg_start segment) output_format;
          end_time = format_timestamp (seg_end segment) output_format;
          text = strip (seg_text segment);
          f = (if output_format = ''srt''
               then f @ (str_nat (i + 1) @ ''\<newline>'')
                      @ (start_time @ '' --> '' @ end_time @ ''\<newline>'')
                      @ (text @ ''\<newline>\<newline>'')
               else (if i = 0 then f @ ''WEBVTT\<newline>\<newline>'' else f)
                      @ (start_time @ '' --> '' @ end_time @ ''\<newline>'')
                      @ (text @ ''\<newline>\<newline>''))
      in write_segments output_format (i + 1) segments f)"

text \<open>
  Saving the transcription (lines 462 to 486): one branch per format; a format that is none of
  the four writes nothing.
  \<^verbatim>\<open>
  if output_format == "txt":
      with open(output_file, "w", encoding="utf-8") as f:
          f.write(result["text"])
  elif output_format in ["srt", "vtt"]:
      with open(output_file, "w", encoding="utf-8") as f:
          segments = result["segments"]
          for i, segment in enumerate(segments): ...
  elif output_format == "json":
      import json
      with open(output_file, "w", encoding="utf-8") as f:
          json.dump(result, f, indent=4)
  \<close>
\<close>

definition save_transcription ::
  "world \<Rightarrow> string \<Rightarrow> string \<Rightarrow> transcription_result \<Rightarrow> disk \<Rightarrow> exc + disk" where
  "save_transcription w output_file output_format result d =
     (if output_format = ''txt'' then write_file w output_file (res_text result) d
      else if output_format \<in> set [''srt'', ''vtt'']
      then write_file w output_file (write_segments output_format 0 (res_segments result) []) d
      else if output_format = ''json'' then write_file w output_file (json_dump w result) d
      else Inr d)"

text \<open>
  The module-level \<^verbatim>\<open>transcribe_audio\<close> (lines 440 to 489). It returns the path of the output
  file or raises; the state it leaves holds what was printed and written up to there.
  \<^verbatim>\<open>
  def transcribe_audio(audio_path, model_name="base", output_format="txt", language=None, device=None):
      if device is None:
          device = "cuda" if torch.cuda.is_available() else "cpu"
      print(f"Loading model: {model_name} on {device}")
      model = whisper.load_model(model_name, device=device)
      print(f"Transcribing: {audio_path}")
      transcribe_options = {"fp16": device == "cuda"}
      if language:
          transcribe_options["language"] = language
      result = model.transcribe(audio_path, **transcribe_options)
      base_name = os.path.splitext(audio_path)[0]
      output_file = f"{base_name}.{output_format}"
      ...
      print(f"Transcription saved to: {output_file}")
      return output_file
  \<close>
\<close>

definition transcribe_audio ::
  "world \<Rightarrow> string \<Rightarrow> string \<Rightarrow> string \<Rightarrow> string option \<Rightarrow> string option \<Rightarrow> cli
     \<Rightarrow> (exc + string) \<times> cli" where
  "transcribe_audio w audio_path model_name output_format language device c =
     (let device = (case device of
                      None \<Rightarrow> if cuda_is_available w then ''cuda'' else ''cpu''
                    | Some d \<Rightarrow> d);
          c = print (''Loading model: '' @ model_name @ '' on '' @ device) c
      in case load_model w model_name device of
           Inl e \<Rightarrow> (Inl e, c)
         | Inr model \<Rightarrow>
             (let c = print (''Transcribing: '' @ audio_path) c;
                  transcribe_options = make_transcribe_options device language
              in case model_transcribe w model audio_path transcribe_options of
                   Inl e \<Rightarrow> (Inl e, c)
                 | Inr result \<Rightarrow>
                     (let base_name = splitext_root audio_path;
                          output_file = base_name @ ''.'' @ output_format
                      in case save_transcription w output_file output_format result (cli_disk c) of
                           Inl e \<Rightarrow> (Inl e, c)
                         | Inr d \<Rightarrow>
                             (Inr output_file,
                              print (''Transcription saved to: '' @ output_file)
                                (c\<lparr>cli_disk := d\<rparr>)))))"

text \<open>
  The files of a directory that the batch functions process (lines 505 to 511, and the same
  code at lines 312 to 318): the entries whose lower-cased name ends with one of the extensions,
  in the order of \<^verbatim>\<open>os.listdir\<close>, each joined to the directory.
  \<^verbatim>\<open>
  audio_extensions = ['.mp3', '.wav', '.m4a', '.flac', '.ogg']
  audio_files = []
  for file in os.listdir(directory):
      if any(file.lower().endswith(ext) for ext in audio_extensions):
          audio_files.append(os.path.join(directory, file))
  \<close>
\<close>

definition audio_extensions :: "string list" where
  "audio_extensions = [''.mp3'', ''.wav'', ''.m4a'', ''.flac'', ''.ogg'']"

definition collect_audio_files :: "string \<Rightarrow> string list \<Rightarrow> string list" where
  "collect_audio_files directory names =
     map (path_join directory)
       (filter (\<lambda>file. \<exists>ext \<in> set audio_extensions. endswith (lower file) ext) names)"

text \<open>
  The loop of the module-level \<^verbatim>\<open>batch_transcribe\<close> (lines 519 to 528): an exception of one
  file is printed and the loop goes on with the next file.
  \<^verbatim>\<open>
  output_files = []
  for audio_file in tqdm(audio_files, desc="Transcribing files"):
      try:
          output_file = transcribe_audio(audio_file, model_name, output_format, language, device)
          output_files.append(output_file)
      except Exception as e:
          print(f"Error processing {audio_file}: {str(e)}")
  return output_files
  \<close>
\<close>

fun batch_loop ::
  "world \<Rightarrow> string \<Rightarrow> string \<Rightarrow> string option \<Rightarrow> string option \<Rightarrow> string list \<Rightarrow> string list
     \<Rightarrow> cli \<Rightarrow> string list \<times> cli" where
  "batch_loop w model_name output_format language device [] output_files c = (output_files, c)"
| "batch_loop w model_name output_format language device (audio_file # audio_files) output_files c =
     (case transcribe_audio w audio_file model_name output_format language device c of
        (Inr output_file, c') \<Rightarrow>
          batch_loop w model_name output_format language device audio_files
            (output_files @ [output_file]) c'
      | (Inl e, c') \<Rightarrow>
          batch_loop w model_name output_format language device audio_files output_files
            (print (''Error processing '' @ audio_file @ '': '' @ exc_str e) c'))"

text \<open>
  The module-level \<^verbatim>\<open>batch_transcribe\<close> (lines 503 to 528). \<^verbatim>\<open>os.listdir\<close> is outside the
  \<^verbatim>\<open>try\<close>, so its exception leaves the function.
\<close>

definition batch_transcribe ::
  "world \<Rightarrow> string \<Rightarrow> string \<Rightarrow> string \<Rightarrow> string option \<Rightarrow> string option \<Rightarrow> cli
     \<Rightarrow> (exc + string list) \<times> cli" where
  "batch_transcribe w directory model_name output_format language device c =
     (case listdir w directory of
        Inl e \<Rightarrow> (Inl e, c)
      | Inr names \<Rightarrow>
          (let audio_files = collect_audio_files directory names
           in if audio_files = []
              then (Inr [], print ''No audio files found in the directory.'' c)
              else (let c = print (''Found '' @ str_nat (length audio_files)
                                     @ '' audio files to process'') c;
                        (output_files, c) =
                           batch_loop w model_name output_format language device audio_files [] c
                    in (Inr output_files, c))))"

text \<open>
  The device that \<^verbatim>\<open>main\<close> passes on (lines 414 to 423): the option \<^verbatim>\<open>--device\<close> accepts
  \<^verbatim>\<open>cuda\<close> and \<^verbatim>\<open>cpu\<close>; without it the device is detected.
  \<^verbatim>\<open>
  gpu_available = torch.cuda.is_available()
  ...
  device = args.device
  if device is None:
      device = "cuda" if gpu_available else "cpu"
  \<close>
\<close>

definition main_device :: "world \<Rightarrow> string option \<Rightarrow> string" where
  "main_device w args_device =
     (let gpu_available = cuda_is_available w
      in case args_device of
           None \<Rightarrow> if gpu_available then ''cuda'' else ''cpu''
         | Some device \<Rightarrow> device)"

section \<open>The application class\<close>

text \<open>
  The fields of \<^verbatim>\<open>WhisperTranscriptionApp\<close> that its methods read and write: the Tk variables,
  the flag \<^verbatim>\<open>processing\<close>, the values offered by the device dropdown, the lines of the log
  widget, the message boxes shown (kind, title, message), and the file system.
\<close>

record app =
  input_path :: string
  model_var :: string
  format_var :: string
  language_var :: string
  device_var :: string
  progress_var :: real
  status_var :: string
  processing :: bool
  device_dropdown_values :: "string list"
  log_text :: "string list"
  messagebox :: "(string \<times> string \<times> string) list"
  disk :: disk

text \<open>
  \<^verbatim>\<open>self.log(message)\<close> appends the message to the log widget. The method is called
  \<open>App_log\<close> here, \<open>log\<close> being the logarithm of the library.
\<close>

definition App_log :: "string \<Rightarrow> app \<Rightarrow> app" where
  "App_log message a = a\<lparr>log_text := log_text a @ [message]\<rparr>"

definition show_messagebox :: "string \<Rightarrow> string \<Rightarrow> string \<Rightarrow> app \<Rightarrow> app" where
  "show_messagebox kind title message a = a\<lparr>messagebox := messagebox a @ [(kind, title, message)]\<rparr>"

text \<open>
  \<^verbatim>\<open>check_gpu\<close> (lines 42 to 56), called by the constructor: the dropdown offers \<^verbatim>\<open>cuda\<close> only
  when a GPU is available, and a device that is not offered is replaced by \<^verbatim>\<open>auto\<close>. The
  first argument is the message of \<^verbatim>\<open>check_gpu_availability\<close>, which names the GPU.
\<close>

definition check_gpu :: "world \<Rightarrow> string \<Rightarrow> app \<Rightarrow> app" where
  "check_gpu w gpu_message a =
     (let gpu_available = cuda_is_available w;
          a = App_log gpu_message a;
          values = [''auto'', ''cpu''] @ (if gpu_available then [''cuda''] else []);
          a = a\<lparr>device_dropdown_values := values\<rparr>
      in if device_var a \<notin> set values then a\<lparr>device_var := ''auto''\<rparr> else a)"

text \<open>
  \<^verbatim>\<open>start_transcription\<close> (lines 173 to 190). The last argument says whether the input path
  exists. When the checks pass, the flag is set and the worker thread is started; the worker
  runs \<open>process_transcription\<close> below.
\<close>

definition start_transcription :: "bool \<Rightarrow> app \<Rightarrow> app" where
  "start_transcription path_exists a =
     (if processing a
      then show_messagebox ''warning'' ''Warning'' ''Transcription already in progress!'' a
      else if input_path a = []
      then show_messagebox ''error'' ''Error''
             ''Please select an audio file or directory first!'' a
      else if \<not> path_exists
      then show_messagebox ''error'' ''Error'' (''The path does not exist: '' @ input_path a) a
      else a\<lparr>processing := True\<rparr>)"

text \<open>
  \<^verbatim>\<open>cancel_transcription\<close> (lines 192 to 197):
  \<^verbatim>\<open>
  if self.processing:
      self.processing = False
      self.status_var.set("Cancelled by user")
      self.log("Transcription cancelled by user.")
  \<close>
\<close>

definition cancel_transcription :: "app \<Rightarrow> app" where
  "cancel_transcription a =
     (if processing a
      then App_log ''Transcription cancelled by user.''
             (a\<lparr>processing := False, status_var := ''Cancelled by user''\<rparr>)
      else a)"

text \<open>
  \<^verbatim>\<open>get_device\<close> (lines 199 to 205):
  \<^verbatim>\<open>
  device_choice = self.device_var.get()
  if device_choice == "auto":
      return "cuda" if torch.cuda.is_available() else "cpu"
  return device_choice
  \<close>
\<close>

definition get_device :: "world \<Rightarrow> app \<Rightarrow> string" where
  "get_device w a =
     (let device_choice = device_var a
      in if device_choice = ''auto''
         then (if cuda_is_available w then ''cuda'' else ''cpu'')
         else device_choice)"

subsection \<open>The user beside the worker\<close>

text \<open>
  The worker thread runs \<^verbatim>\<open>process_transcription\<close> while the Tk main loop may run
  \<^verbatim>\<open>cancel_transcription\<close> at any moment. The model places the presses of the Cancel button
  at the points between which the worker does not read the flag: just before the test of the
  flag that opens the loop iteration of file \<open>i\<close>, while the inference call of file \<open>i\<close> is in
  flight (for a single file, \<open>i = 0\<close>), and after the pipeline has returned, before line 250.
  Which presses happen is a parameter.
\<close>

record user =
  cancel_before :: "nat \<Rightarrow> bool"
  cancel_during :: "nat \<Rightarrow> bool"
  cancel_at_end :: bool

definition press_cancel :: "bool \<Rightarrow> app \<Rightarrow> app" where
  "press_cancel pressed a = (if pressed then cancel_transcription a else a)"

subsection \<open>Transcribing one file\<close>

text \<open>The loop over the segments in the method \<^verbatim>\<open>transcribe_audio\<close> (lines 288 to 301).\<close>

fun App_write_segments :: "string \<Rightarrow> nat \<Rightarrow> segment list \<Rightarrow> string \<Rightarrow> string" where
  "App_write_segments output_format i [] f = f"
| "App_write_segments output_format i (segment # segments) f =
     (let start_time = App_format_timestamp (seg_start segment) output_format;
          end_time = App_format_timestamp (seg_end segment) output_format;
          text = strip (seg_text segment);
          f = (if output_format = ''srt''
               then f @ (str_nat (i + 1) @ ''\<newline>'')
                      @ (start_time @ '' --> '' @ end_time @ ''\<newline>'')
                      @ (text @ ''\<newline>\<newline>'')
               else (if i = 0 then f @ ''WEBVTT\<newline>\<newline>'' else f)
                      @ (start_time @ '' --> '' @ end_time @ ''\<newline>'')
                      @ (text @ ''\<newline>\<newline>''))
      in App_write_segments output_format (i + 1) segments f)"

text \<open>Saving the transcription in the method \<^verbatim>\<open>transcribe_audio\<close> (lines 281 to 305).\<close>

definition App_save_transcription ::
  "world \<Rightarrow> string \<Rightarrow> string \<Rightarrow> transcription_result \<Rightarrow> disk \<Rightarrow> exc + disk" where
  "App_save_transcription w output_file output_format result d =
     (if output_format = ''txt'' then write_file w output_file (res_text result) d
      else if output_format \<in> set [''srt'', ''vtt'']
      then write_file w output_file (App_write_segments output_format 0 (res_segments result) []) d
      else if output_format = ''json'' then write_file w output_file (json_dump w result) d
      else Inr d)"

text \<open>
  The method \<^verbatim>\<open>transcribe_audio\<close> (lines 263 to 308). It differs from the module-level function
  in that the device is always given and the messages go to the log widget.
\<close>

definition App_transcribe_audio ::
  "world \<Rightarrow> user \<Rightarrow> string \<Rightarrow> string \<Rightarrow> string \<Rightarrow> string option \<Rightarrow> string \<Rightarrow> app
     \<Rightarrow> (exc + string) \<times> app" where
  "App_transcribe_audio w u audio_path model_name output_format language device a =
     (let a = App_log (''Loading model: '' @ model_name @ '' on '' @ device) a
      in case load_model w model_name device of
           Inl e \<Rightarrow> (Inl e, a)
         | Inr model \<Rightarrow>
             (let a = App_log (''Transcribing: '' @ audio_path) a;
                  transcribe_options = make_transcribe_options device language;
                  a = press_cancel (cancel_during u 0) a
              in case model_transcribe w model audio_path transcribe_options of
                   Inl e \<Rightarrow> (Inl e, a)
                 | Inr result \<Rightarrow>
                     (let base_name = splitext_root audio_path;
                          output_file = base_name @ ''.'' @ output_format
                      in case App_save_transcription w output_file output_format result (disk a) of
                           Inl e \<Rightarrow> (Inl e, a)
                         | Inr d \<Rightarrow>
                             (Inr output_file,
                              App_log (''Transcription saved to: '' @ output_file)
                                (a\<lparr>disk := d\<rparr>)))))"

subsection \<open>Transcribing a directory\<close>

text \<open>
  The method \<^verbatim>\<open>batch_transcribe\<close> (lines 310 to 383) holds a third copy of the code that saves
  a transcription, inside the body of its loop (lines 351 to 375), with \<open>j\<close> for the index of
  the segment.
\<close>

fun App_batch_write_segments :: "string \<Rightarrow> nat \<Rightarrow> segment list \<Rightarrow> string \<Rightarrow> string" where
  "App_batch_write_segments output_format j [] f = f"
| "App_batch_write_segments output_format j (segment # segments) f =
     (let start_time = App_format_timestamp (seg_start segment) output_format;
          end_time = App_format_timestamp (seg_end segment) output_format;
          text = strip (seg_text segment);
          f = (if output_format = ''srt''
               then f @ (str_nat (j + 1) @ ''\<newline>'')
                      @ (start_time @ '' --> '' @ end_time @ ''\<newline>'')
                      @ (text @ ''\<newline>\<newline>'')
               else (if j = 0 then f @ ''WEBVTT\<newline>\<newline>'' else f)
                      @ (start_time @ '' --> '' @ end_time @ ''\<newline>'')
                      @ (text @ ''\<newline>\<newline>''))
      in App_batch_write_segments output_format (j + 1) segments f)"

definition App_batch_save_transcription ::
  "world \<Rightarrow> string \<Rightarrow> string \<Rightarrow> transcription_result \<Rightarrow> disk \<Rightarrow> exc + disk" where
  "App_batch_save_transcription w output_file output_format result d =
     (if output_format = ''txt'' then write_file w output_file (res_text result) d
      else if output_format \<in> set [''srt'', ''vtt'']
      then write_file w output_file
             (App_batch_write_segments output_format 0 (res_segments result) []) d
      else if output_format = ''json'' then write_file w output_file (json_dump w result) d
      else Inr d)"

text \<open>
  The body of the \<^verbatim>\<open>try\<close> statement inside the loop (lines 337 to 378), for the file with index
  \<open>i\<close> of \<open>n\<close> files. It returns the output path for \<^verbatim>\<open>output_files.append\<close>, or the exception.
  \<^verbatim>\<open>
  self.status_var.set(f"Transcribing file {i+1} of {len(audio_files)}: {os.path.basename(audio_file)}")
  self.log(f"Transcribing: {audio_file}")
  transcribe_options = {"fp16": device == "cuda"}
  if language:
      transcribe_options["language"] = language
  result = model.transcribe(audio_file, **transcribe_options)
  base_name = os.path.splitext(audio_file)[0]
  output_file = f"{base_name}.{output_format}"
  ...
  self.log(f"Transcription saved to: {output_file}")
  output_files.append(output_file)
  \<close>
\<close>

definition App_batch_file ::
  "world \<Rightarrow> user \<Rightarrow> whisper_model \<Rightarrow> string \<Rightarrow> string option \<Rightarrow> string \<Rightarrow> nat \<Rightarrow> nat \<Rightarrow> string
     \<Rightarrow> app \<Rightarrow> (exc + string) \<times> app" where
  "App_batch_file w u model output_format language device n i audio_file a =
     (let a = a\<lparr>status_var := ''Transcribing file '' @ str_nat (i + 1) @ '' of '' @ str_nat n
                                 @ '': '' @ basename audio_file\<rparr>;
          a = App_log (''Transcribing: '' @ audio_file) a;
          transcribe_options = make_transcribe_options device language;
          a = press_cancel (cancel_during u i) a
      in case model_transcribe w model audio_file transcribe_options of
           Inl e \<Rightarrow> (Inl e, a)
         | Inr result \<Rightarrow>
             (let base_name = splitext_root audio_file;
                  output_file = base_name @ ''.'' @ output_format
              in case App_batch_save_transcription w output_file output_format result (disk a) of
                   Inl e \<Rightarrow> (Inl e, a)
                 | Inr d \<Rightarrow>
                     (Inr output_file,
                      App_log (''Transcription saved to: '' @ output_file) (a\<lparr>disk := d\<rparr>))))"

text \<open>
  The loop (lines 330 to 383): the flag is tested once per file, before anything else is done
  for the file; an exception of one file is logged and the loop goes on.
  \<^verbatim>\<open>
  output_files = []
  for i, audio_file in enumerate(audio_files):
      if not self.processing:  # Check if cancelled
          break
      try:
          ...
      except Exception as e:
          self.log(f"Error processing {audio_file}: {str(e)}")
  return output_files
  \<close>
\<close>

fun App_batch_loop ::
  "world \<Rightarrow> user \<Rightarrow> whisper_model \<Rightarrow> string \<Rightarrow> string option \<Rightarrow> string \<Rightarrow> nat \<Rightarrow> nat
     \<Rightarrow> string list \<Rightarrow> string list \<Rightarrow> app \<Rightarrow> string list \<times> app" where
  "App_batch_loop w u model output_format language device n i [] output_files a =
     (output_files, a)"
| "App_batch_loop w u model output_format language device n i (audio_file # audio_files)
     output_files a =
     (let a = press_cancel (cancel_before u i) a
      in if \<not> processing a then (output_files, a)
         else (case App_batch_file w u model output_format language device n i audio_file a of
                 (Inr output_file, a') \<Rightarrow>
                   App_batch_loop w u model output_format language device n (i + 1) audio_files
                     (output_files @ [output_file]) a'
               | (Inl e, a') \<Rightarrow>
                   App_batch_loop w u model output_format language device n (i + 1) audio_files
                     output_files
                     (App_log (''Error processing '' @ audio_file @ '': '' @ exc_str e) a')))"

text \<open>
  The method \<^verbatim>\<open>batch_transcribe\<close> as a whole. \<^verbatim>\<open>os.listdir\<close> and \<^verbatim>\<open>whisper.load_model\<close> are
  outside the \<^verbatim>\<open>try\<close> of the loop; the model is loaded once.
\<close>

definition App_batch_transcribe ::
  "world \<Rightarrow> user \<Rightarrow> string \<Rightarrow> string \<Rightarrow> string \<Rightarrow> string option \<Rightarrow> string \<Rightarrow> app
     \<Rightarrow> (exc + string list) \<times> app" where
  "App_batch_transcribe w u directory model_name output_format language device a =
     (case listdir w directory of
        Inl e \<Rightarrow> (Inl e, a)
      | Inr names \<Rightarrow>
          (let audio_files = collect_audio_files directory names
           in if audio_files = []
              then (Inr [], App_log ''No audio files found in the directory.'' a)
              else (let a = App_log (''Found '' @ str_nat (length audio_files)
                                   @ '' audio files to process'') a;
                        a = App_log (''Loading model: '' @ model_name @ '' on '' @ device) a
                    in case load_model w model_name device of
                         Inl e \<Rightarrow> (Inl e, a)
                       | Inr model \<Rightarrow>
                           (let (output_files, a) =
                                  App_batch_loop w u model output_format language device
                                    (length audio_files) 0 audio_files [] a
                            in (Inr output_files, a)))))"

subsection \<open>The worker\<close>

text \<open>
  \<^verbatim>\<open>process_transcription\<close> (lines 227 to 261). The pipeline either returns or raises; the
  value it returns is not used. The progress thread that line 241 starts is modelled apart
  (\<open>simulate_progress\<close> below); this function holds the writes of the worker itself. The
  local variable \<^verbatim>\<open>input_path\<close> is called \<open>path\<close> here, the name being taken by the field.
  \<^verbatim>\<open>
  try:
      input_path = self.input_path.get()
      model_name = self.model_var.get()
      output_format = self.format_var.get()
      language = self.language_var.get() if self.language_var.get() else None
      device = self.get_device()
      self.progress_var.set(0)
      self.status_var.set("Starting transcription...")
      self.log(f"Starting transcription with model: {model_name} on {device}")
      progress_thread = threading.Thread(target=self.simulate_progress, daemon=True)
      progress_thread.start()
      if os.path.isdir(input_path):
          self.batch_transcribe(input_path, model_name, output_format, language, device)
      else:
          self.transcribe_audio(input_path, model_name, output_format, language, device)
      # Ensure progress bar reaches 100%
      self.progress_var.set(100)
      if self.processing:  # If not cancelled
          self.status_var.set("Transcription completed!")
          self.log("Transcription completed successfully!")
          messagebox.showinfo("Success", "Transcription completed successfully!")
  except Exception as e:
      self.status_var.set("Error occurred")
      self.log(f"Error: {str(e)}")
      messagebox.showerror("Error", f"An error occurred during transcription:\n{str(e)}")
  finally:
      self.processing = False
  \<close>
\<close>

text \<open>
  The statement \<^verbatim>\<open>if os.path.isdir(input_path): ... else: ...\<close> of lines 244 to 247: the
  exception that leaves it, if any, and the state it leaves.
\<close>

definition run_pipeline ::
  "world \<Rightarrow> user \<Rightarrow> string \<Rightarrow> string \<Rightarrow> string \<Rightarrow> string option \<Rightarrow> string \<Rightarrow> app
     \<Rightarrow> exc option \<times> app" where
  "run_pipeline w u path model_name output_format language device a =
     (if isdir w path
      then (case App_batch_transcribe w u path model_name output_format language device a of
              (Inl e, a') \<Rightarrow> (Some e, a')
            | (Inr output_files, a') \<Rightarrow> (None, a'))
      else (case App_transcribe_audio w u path model_name output_format language device a of
              (Inl e, a') \<Rightarrow> (Some e, a')
            | (Inr output_file, a') \<Rightarrow> (None, a')))"

definition process_transcription :: "world \<Rightarrow> user \<Rightarrow> app \<Rightarrow> app" where
  "process_transcription w u a =
     (let path = input_path a;
          model_name = model_var a;
          output_format = format_var a;
          language = (if language_var a \<noteq> [] then Some (language_var a) else None);
          device = get_device w a;
          a = a\<lparr>progress_var := 0\<rparr>;
          a = a\<lparr>status_var := ''Starting transcription...''\<rparr>;
          a = App_log (''Starting transcription with model: '' @ model_name @ '' on '' @ device) a;
          (raised, a) = run_pipeline w u path model_name output_format language device a;
          a = (case raised of
                 None \<Rightarrow>
                   (let a = press_cancel (cancel_at_end u) a;
                        a = a\<lparr>progress_var := 100\<rparr>
                    in if processing a
                       then show_messagebox ''info'' ''Success''
                              ''Transcription completed successfully!''
                              (App_log ''Transcription completed successfully!''
                                 (a\<lparr>status_var := ''Transcription completed!''\<rparr>))
                       else a)
               | Some e \<Rightarrow>
                   show_messagebox ''error'' ''Error''
                     (''An error occurred during transcription:\<newline>'' @ exc_str e)
                     (App_log (''Error: '' @ exc_str e) (a\<lparr>status_var := ''Error occurred''\<rparr>)))
      in a\<lparr>processing := False\<rparr>)"

subsection \<open>The progress thread\<close>

text \<open>
  \<^verbatim>\<open>simulate_progress\<close> (lines 207 to 225) runs in a thread of its own:
  \<^verbatim>\<open>
  self.progress_var.set(0)
  step = 0
  while self.processing and step < 95:
      if step < 20:
          increment = 0.5
      elif step < 50:
          increment = 0.3
      elif step < 80:
          increment = 0.1
      else:
          increment = 0.05
      step += increment
      self.progress_var.set(step)
      time.sleep(0.1)
  \<close>
  The flag is written by other threads, so what the \<open>k\<close>-th test of the loop condition reads
  is a parameter. The function returns the values that the thread writes to the progress
  variable, in order. The loop ends whatever the flag does, since \<open>step\<close> grows by at least
  \<open>0.05\<close> in every round; that is its termination proof.
\<close>

definition increment :: "real \<Rightarrow> real" where
  "increment step =
     (if step < 20 then 0.5 else if step < 50 then 0.3 else if step < 80 then 0.1 else 0.05)"

function simulate_progress_loop :: "(nat \<Rightarrow> bool) \<Rightarrow> nat \<Rightarrow> real \<Rightarrow> real list" where
  "simulate_progress_loop processing_at k step =
     (if processing_at k \<and> step < 95
      then (let step = step + increment step
            in step # simulate_progress_loop processing_at (k + 1) step)
      else [])"
  by pat_completeness auto
termination
proof (relation "measure (\<lambda>(processing_at, k, step). nat \<lceil>(95 - step) * 20\<rceil>)")
  show "wf (measure (\<lambda>(processing_at, k, step). nat \<lceil>(95 - step) * 20\<rceil>))"
    by simp
next
  fix processing_at :: "nat \<Rightarrow> bool" and k :: nat and step x :: real
  assume a: "processing_at k \<and> step < 95" and x: "x = step + increment step"
  have "1 / 20 \<le> increment step"
    by (simp add: increment_def)
  with x have "(95 - x) * 20 \<le> (95 - step) * 20 - 1"
    by simp
  then have "\<lceil>(95 - x) * 20\<rceil> \<le> \<lceil>(95 - step) * 20 - 1\<rceil>"
    by (rule ceiling_mono)
  moreover have "\<lceil>(95 - step) * 20 - 1\<rceil> = \<lceil>(95 - step) * 20\<rceil> - 1"
    by (rule ceiling_diff_one)
  ultimately have "\<lceil>(95 - x) * 20\<rceil> < \<lceil>(95 - step) * 20\<rceil>"
    by linarith
  moreover from a have "0 < \<lceil>(95 - step) * 20\<rceil>"
    by (simp add: ceiling_less_iff)
  ultimately show "((processing_at, k + 1, x), (processing_at, k, step))
      \<in> measure (\<lambda>(processing_at, k, step). nat \<lceil>(95 - step) * 20\<rceil>)"
    by simp
qed

declare simulate_progress_loop.simps [simp del]

definition simulate_progress :: "(nat \<Rightarrow> bool) \<Rightarrow> real list" where
  "simulate_progress processing_at = 0 # simulate_progress_loop processing_at 0 0"

section \<open>The web handler\<close>

text \<open>
  \<^verbatim>\<open>src/app.py\<close>, the handler of \<^verbatim>\<open>POST /transcribe\<close> (lines 11 to 30):
  \<^verbatim>\<open>
  from flask import Flask, request, jsonify, render_template
  import whisper
  import os

  app = Flask(__name__)
  ...
  @app.route('/transcribe', methods=['POST'])
  def transcribe():
      audio_file = request.files['file']
      model_name = request.form.get('model', 'base')
      output_format = request.form.get('format', 'txt')
      device = 'cuda' if torch.cuda.is_available() else 'cpu'

      # Save the uploaded file temporarily
      file_path = f'temp/{audio_file.filename}'
      audio_file.save(file_path)

      # Load Whisper model and transcribe
      model = whisper.load_model(model_name, device=device)
      result = model.transcribe(file_path)

      # Clean up temporary file
      os.remove(file_path)

      # Return the transcription
      return jsonify({'text': result['text']})
  \<close>
  The handler reads the global name \<^verbatim>\<open>torch\<close>. Looking up a global name that the module does
  not bind raises \<^verbatim>\<open>NameError\<close>, so the names that the module binds are part of the model:
  the handler takes them as a parameter, and \<open>app_py_globals\<close> are the names that the file
  binds as it is written.
\<close>

record request =
  files_file :: "(string \<times> string) option"
  form_model :: "string option"
  form_format :: "string option"

definition app_py_globals :: "string list" where
  "app_py_globals =
     [''Flask'', ''request'', ''jsonify'', ''render_template'', ''whisper'', ''os'', ''app'',
      ''index'', ''transcribe'']"

definition form_get :: "string option \<Rightarrow> string \<Rightarrow> string" where
  "form_get field dflt = (case field of None \<Rightarrow> dflt | Some v \<Rightarrow> v)"

text \<open>
  \<^verbatim>\<open>model.transcribe(file_path)\<close> passes no options, so the engine takes its defaults
  (\<^verbatim>\<open>fp16=True\<close>, no language).
\<close>

definition default_transcribe_options :: transcribe_options where
  "default_transcribe_options = \<lparr>fp16 = True, language_opt = None\<rparr>"

definition transcribe ::
  "string list \<Rightarrow> world \<Rightarrow> request \<Rightarrow> disk \<Rightarrow> (exc + string) \<times> disk" where
  "transcribe globals w req d =
     (case files_file req of
        None \<Rightarrow> (Inl (Exc ''BadRequestKeyError'' ''400 Bad Request''), d)
      | Some (filename, content) \<Rightarrow>
          (let model_name = form_get (form_model req) ''base'';
               output_format = form_get (form_format req) ''txt''
           in if ''torch'' \<notin> set globals
              then (Inl (Exc ''NameError'' ''name 'torch' is not defined''), d)
              else (let device = (if cuda_is_available w then ''cuda'' else ''cpu'');
                        file_path = ''temp/'' @ filename
                    in case write_file w file_path content d of
                         Inl e \<Rightarrow> (Inl e, d)
                       | Inr d \<Rightarrow>
                           (case load_model w model_name device of
                              Inl e \<Rightarrow> (Inl e, d)
                            | Inr model \<Rightarrow>
                                (case model_transcribe w model file_path
                                        default_transcribe_options of
                                   Inl e \<Rightarrow> (Inl e, d)
                                 | Inr result \<Rightarrow>
                                     (let d = d(file_path := None)
                                      in (Inr (res_text result), d)))))))"

subsection \<open>The timestamp rule as the specification words it\<close>

text \<open>
  The specification gives the rule for a non-negative real number of seconds: hours is the floor
  of \<open>seconds / 3600\<close>, minutes the floor of \<open>(seconds mod 3600) / 60\<close>, whole seconds the floor of
  \<open>seconds mod 60\<close>, milliseconds the floor of the fractional part times 1000; the fields are
  padded with zeros to 2, 2, 2 and 3 digits.
\<close>

definition real_mod :: "real \<Rightarrow> real \<Rightarrow> real" where
  "real_mod x m = x - m * of_int \<lfloor>x / m\<rfloor>"

definition spec_hours :: "real \<Rightarrow> nat" where
  "spec_hours s = nat \<lfloor>s / 3600\<rfloor>"

definition spec_minutes :: "real \<Rightarrow> nat" where
  "spec_minutes s = nat \<lfloor>real_mod s 3600 / 60\<rfloor>"

definition spec_seconds :: "real \<Rightarrow> nat" where
  "spec_seconds s = nat \<lfloor>real_mod s 60\<rfloor>"

definition spec_millis :: "real \<Rightarrow> nat" where
  "spec_millis s = nat \<lfloor>frac s * 1000\<rfloor>"

definition zero_pad :: "nat \<Rightarrow> nat \<Rightarrow> string" where
  "zero_pad w n = replicate (w - length (str_nat n)) (CHR ''0'') @ str_nat n"

definition spec_timestamp :: "string \<Rightarrow> real \<Rightarrow> string" where
  "spec_timestamp sep s =
     zero_pad 2 (spec_hours s) @ '':'' @ zero_pad 2 (spec_minutes s) @ '':''
       @ zero_pad 2 (spec_seconds s) @ sep @ zero_pad 3 (spec_millis s)"

subsection \<open>The subtitle formats as the specification words them\<close>

text \<open>
  An srt file holds one block per segment: the index (counted from 1), the line
  \<open>start --> end\<close>, the trimmed text and an empty line. The \<open>n\<close>-th block is made from the
  \<open>n\<close>-th segment of the result. A vtt block is the same without the index.
\<close>

definition srt_block :: "nat \<Rightarrow> segment \<Rightarrow> string" where
  "srt_block n seg =
     str_nat n @ ''\<newline>''
       @ format_timestamp (seg_start seg) ''srt'' @ '' --> ''
       @ format_timestamp (seg_end seg) ''srt'' @ ''\<newline>''
       @ strip (seg_text seg) @ ''\<newline>\<newline>''"

definition srt_document :: "segment list \<Rightarrow> string" where
  "srt_document segs = concat (map (\<lambda>n. srt_block (n + 1) (segs ! n)) [0..<length segs])"

definition vtt_block :: "segment \<Rightarrow> string" where
  "vtt_block seg =
     format_timestamp (seg_start seg) ''vtt'' @ '' --> ''
       @ format_timestamp (seg_end seg) ''vtt'' @ ''\<newline>''
       @ strip (seg_text seg) @ ''\<newline>\<newline>''"

subsection \<open>Outcomes of the files of a batch\<close>

text \<open>
  What one file of a batch comes to once the model is loaded: the exception of the inference or
  of writing the output, or the path of the output file. Whether writing raises does not
  depend on the files that exist, so the outcome is taken on the empty file system.
\<close>

definition file_outcome ::
  "world \<Rightarrow> whisper_model \<Rightarrow> string \<Rightarrow> string option \<Rightarrow> string \<Rightarrow> string \<Rightarrow> exc + string" where
  "file_outcome w model output_format language device audio_file =
     (case model_transcribe w model audio_file (make_transcribe_options device language) of
        Inl e \<Rightarrow> Inl e
      | Inr result \<Rightarrow>
          (case save_transcription w (splitext_root audio_file @ ''.'' @ output_format)
                  output_format result Map.empty of
             Inl e \<Rightarrow> Inl e
           | Inr d \<Rightarrow> Inr (splitext_root audio_file @ ''.'' @ output_format)))"

text \<open>
  The output paths of the files that succeed and the messages for the files that fail, each in
  the order of the files.
\<close>

fun output_paths :: "(string \<Rightarrow> exc + string) \<Rightarrow> string list \<Rightarrow> string list" where
  "output_paths outcome [] = []"
| "output_paths outcome (audio_file # audio_files) =
     (case outcome audio_file of
        Inr output_file \<Rightarrow> output_file # output_paths outcome audio_files
      | Inl e \<Rightarrow> output_paths outcome audio_files)"

fun error_lines :: "(string \<Rightarrow> exc + string) \<Rightarrow> string list \<Rightarrow> string list" where
  "error_lines outcome [] = []"
| "error_lines outcome (audio_file # audio_files) =
     (case outcome audio_file of
        Inr output_file \<Rightarrow> error_lines outcome audio_files
      | Inl e \<Rightarrow>
          (''Error processing '' @ audio_file @ '': '' @ exc_str e)
            # error_lines outcome audio_files)"

definition is_error_line :: "string \<Rightarrow> bool" where
  "is_error_line line \<longleftrightarrow> prefix ''Error processing '' line"

text \<open>
  The state of a run as the specification names it, read from the status line and the flag:
  a run has ended when the flag is down.
\<close>

definition ended_completed :: "app \<Rightarrow> bool" where
  "ended_completed a \<longleftrightarrow> \<not> processing a \<and> status_var a = ''Transcription completed!''"

definition ended_cancelled :: "app \<Rightarrow> bool" where
  "ended_cancelled a \<longleftrightarrow> \<not> processing a \<and> status_var a = ''Cancelled by user''"

definition ended_failed :: "app \<Rightarrow> bool" where
  "ended_failed a \<longleftrightarrow> \<not> processing a \<and> status_var a = ''Error occurred''"

text \<open>
  While the flag is up the run goes on; once the flag is down during a run, the status line
  says that the user cancelled.
\<close>

definition running_or_cancelled :: "app \<Rightarrow> bool" where
  "running_or_cancelled a \<longleftrightarrow> processing a \<or> status_var a = ''Cancelled by user''"

text \<open>
  The state in which the worker calls the pipeline (after lines 236 to 238) and the language
  that it passes on (line 233).
\<close>

definition pipeline_start :: "world \<Rightarrow> app \<Rightarrow> app" where
  "pipeline_start w a =
     App_log (''Starting transcription with model: '' @ model_var a @ '' on '' @ get_device w a)
       (a\<lparr>progress_var := 0, status_var := ''Starting transcription...''\<rparr>)"

definition pipeline_language :: "app \<Rightarrow> string option" where
  "pipeline_language a = (if language_var a \<noteq> [] then Some (language_var a) else None)"

section \<open>A small world for running the functions\<close>

text \<open>
  A directory \<open>d\<close> with four entries, three of them audio files; the engine fails on
  \<open>d/b.mp3\<close> and returns a result with two segments for every other file; no GPU.
\<close>

definition demo_result :: transcription_result where
  "demo_result =
     \<lparr>res_text = '' Hello world. Bye.'',
      res_segments =
        [\<lparr>seg_start = 0, seg_end = 2.5, seg_text = '' Hello world.''\<rparr>,
         \<lparr>seg_start = 7, seg_end = 8.25, seg_text = '' Bye. ''\<rparr>]\<rparr>"

definition demo_world :: world where
  "demo_world =
     \<lparr>cuda_is_available = False,
      load_model_raises = (\<lambda>model_name device. None),
      model_transcribe =
        (\<lambda>model path opts.
           if path = ''d/b.mp3'' then Inl (Exc ''RuntimeError'' ''corrupt audio'')
           else Inr demo_result),
      open_raises = (\<lambda>path. None),
      json_dump = (\<lambda>result. ''{}''),
      isdir = (\<lambda>path. path = ''d''),
      isfile = (\<lambda>path. path \<noteq> ''d''),
      listdir =
        (\<lambda>path. if path = ''d'' then Inr [''a.mp3'', ''b.mp3'', ''notes.txt'', ''c.WAV'']
                else Inl (Exc ''NotADirectoryError'' path))\<rparr>"

text \<open>A recording of silence: the engine returns no text and no segment.\<close>

definition silent_result :: transcription_result where
  "silent_result = \<lparr>res_text = [], res_segments = []\<rparr>"

text \<open>A result whose only segment starts before zero.\<close>

definition negative_result :: transcription_result where
  "negative_result =
     \<lparr>res_text = ''hi'',
      res_segments = [\<lparr>seg_start = - 1.5, seg_end = 1, seg_text = ''hi''\<rparr>]\<rparr>"

text \<open>An upload of a file \<open>a.wav\<close> with default model and format.\<close>

definition demo_upload :: request where
  "demo_upload = \<lparr>files_file = Some (''a.wav'', ''RIFF''), form_model = None, form_format = None\<rparr>"

text \<open>The same world with an engine that raises on every file.\<close>

definition corrupt_world :: world where
  "corrupt_world =
     demo_world\<lparr>model_transcribe :=
       (\<lambda>model path opts. Inl (Exc ''RuntimeError'' ''corrupt audio''))\<rparr>"

text \<open>A user who presses Cancel once, when \<open>n\<close> files are done and before the next one starts.\<close>

definition cancel_after :: "nat \<Rightarrow> user" where
  "cancel_after n =
     \<lparr>cancel_before = (\<lambda>i. i = n), cancel_during = (\<lambda>i. False), cancel_at_end = False\<rparr>"

definition demo_cli :: cli where
  "demo_cli = \<lparr>stdout = [], cli_disk = Map.empty\<rparr>"

definition demo_app :: app where
  "demo_app =
     \<lparr>input_path = ''d'', model_var = ''base'', format_var = ''srt'', language_var = '''',
      device_var = ''auto'', progress_var = 0, status_var = ''Ready'', processing = True,
      device_dropdown_values = [''auto'', ''cpu''], log_text = [], messagebox = [],
      disk = Map.empty\<rparr>"

definition no_cancel :: user where
  "no_cancel = \<lparr>cancel_before = (\<lambda>i. False), cancel_during = (\<lambda>i. False), cancel_at_end = False\<rparr>"

section \<open>Properties of the primitives\<close>

lemma length_str_nat_lt10: "n < 10 \<Longrightarrow> length (str_nat n) = 1"
  by (subst str_nat.simps) simp

lemma length_str_nat_lt100: "10 \<le> n \<Longrightarrow> n < 100 \<Longrightarrow> length (str_nat n) = 2"
  by (subst str_nat.simps) (simp add: length_str_nat_lt10)

lemma length_str_nat_lt1000: "100 \<le> n \<Longrightarrow> n < 1000 \<Longrightarrow> length (str_nat n) = 3"
  by (subst str_nat.simps) (simp add: length_str_nat_lt100)

lemma length_str_nat_pos: "0 < length (str_nat n)"
  by (subst str_nat.simps) simp

lemma length_zero_pad: "length (zero_pad w n) = max w (length (str_nat n))"
  by (simp add: zero_pad_def)

lemma length_zero_pad_2: "n < 100 \<Longrightarrow> length (zero_pad 2 n) = 2"
proof -
  assume "n < 100"
  then have "length (str_nat n) \<le> 2"
    using length_str_nat_lt10 [of n] length_str_nat_lt100 [of n] by (cases "n < 10") simp_all
  then show ?thesis by (simp add: length_zero_pad)
qed

lemma length_zero_pad_3: "n < 1000 \<Longrightarrow> length (zero_pad 3 n) = 3"
proof -
  assume n: "n < 1000"
  have "length (str_nat n) \<le> 3"
  proof (cases "n < 10")
    case True
    then show ?thesis by (simp add: length_str_nat_lt10)
  next
    case False
    show ?thesis
    proof (cases "n < 100")
      case True
      with \<open>\<not> n < 10\<close> show ?thesis by (simp add: length_str_nat_lt100)
    next
      case False
      with n show ?thesis by (simp add: length_str_nat_lt1000)
    qed
  qed
  then show ?thesis by (simp add: length_zero_pad)
qed

lemma format_d_nonneg: "0 \<le> i \<Longrightarrow> format_d w i = zero_pad w (nat i)"
  by (simp add: format_d_def zero_pad_def Let_def)

lemma py_int_nonneg: "0 \<le> x \<Longrightarrow> py_int x = \<lfloor>x\<rfloor>"
  by (simp add: py_int_def)

lemma py_mod_nonneg: "0 < m \<Longrightarrow> 0 \<le> py_mod x m"
proof -
  assume m: "0 < m"
  have "m * of_int \<lfloor>x / m\<rfloor> \<le> m * (x / m)"
    using m by (intro mult_left_mono) simp_all
  also have "m * (x / m) = x" using m by simp
  finally show ?thesis by (simp add: py_mod_def)
qed

lemma py_mod_less: "0 < m \<Longrightarrow> py_mod x m < m"
proof -
  assume m: "0 < m"
  have "x / m < of_int \<lfloor>x / m\<rfloor> + 1" by linarith
  with m have "x < m * (of_int \<lfloor>x / m\<rfloor> + 1)"
    by (simp add: field_simps)
  then show ?thesis by (simp add: py_mod_def algebra_simps)
qed

lemma py_mod_real_mod: "py_mod x m = real_mod x m"
  by (simp add: py_mod_def real_mod_def)

lemma spec_millis_le: "spec_millis s \<le> 999"
proof -
  have "frac s < 1" by (rule frac_lt_1)
  then have "frac s * 1000 < 1000" by simp
  then have "\<lfloor>frac s * 1000\<rfloor> < 1000" by (simp add: floor_less_iff)
  then show ?thesis unfolding spec_millis_def by linarith
qed

lemma spec_minutes_less: "spec_minutes s < 60"
proof -
  have "real_mod s 3600 < 3600"
    using py_mod_less [of 3600 s] by (simp add: py_mod_real_mod)
  then have "real_mod s 3600 / 60 < 60" by simp
  then have "\<lfloor>real_mod s 3600 / 60\<rfloor> < 60" by (simp add: floor_less_iff)
  then show ?thesis unfolding spec_minutes_def by linarith
qed

lemma spec_seconds_less: "spec_seconds s < 60"
proof -
  have "real_mod s 60 < 60"
    using py_mod_less [of 60 s] by (simp add: py_mod_real_mod)
  then have "\<lfloor>real_mod s 60\<rfloor> < 60" by (simp add: floor_less_iff)
  then show ?thesis unfolding spec_seconds_def by linarith
qed

lemma format_timestamp_fields:
  assumes "0 \<le> s"
  shows "py_int (s / 3600) = int (spec_hours s)"
    and "py_int (py_mod s 3600 / 60) = int (spec_minutes s)"
    and "py_int (py_mod s 60) = int (spec_seconds s)"
    and "py_int ((s - of_int (py_int s)) * 1000) = int (spec_millis s)"
proof -
  from assms show "py_int (s / 3600) = int (spec_hours s)"
    by (simp add: py_int_nonneg spec_hours_def)
  have "0 \<le> py_mod s 3600" by (simp add: py_mod_nonneg)
  then show "py_int (py_mod s 3600 / 60) = int (spec_minutes s)"
    by (simp add: py_int_nonneg spec_minutes_def py_mod_real_mod)
  have "0 \<le> py_mod s 60" by (simp add: py_mod_nonneg)
  then show "py_int (py_mod s 60) = int (spec_seconds s)"
    by (simp add: py_int_nonneg spec_seconds_def py_mod_real_mod)
  from assms have "s - of_int (py_int s) = frac s"
    by (simp add: py_int_nonneg frac_def)
  moreover have "0 \<le> frac s * 1000" by simp
  ultimately show "py_int ((s - of_int (py_int s)) * 1000) = int (spec_millis s)"
    by (simp add: py_int_nonneg spec_millis_def)
qed

lemma format_timestamp_srt_nonneg:
  assumes "0 \<le> s"
  shows "format_timestamp s ''srt'' = spec_timestamp '','' s"
  unfolding format_timestamp_def Let_def spec_timestamp_def
  by (simp only: format_timestamp_fields [OF assms] format_d_nonneg of_nat_0_le_iff nat_int) simp

lemma format_timestamp_vtt_nonneg:
  assumes "0 \<le> s"
  shows "format_timestamp s ''vtt'' = spec_timestamp ''.'' s"
  unfolding format_timestamp_def Let_def spec_timestamp_def
  by (simp only: format_timestamp_fields [OF assms] format_d_nonneg of_nat_0_le_iff nat_int) simp

lemma replicate_2: "replicate 2 x = [x, x]"
  by (simp add: numeral_2_eq_2)

lemma replicate_3: "replicate 3 x = [x, x, x]"
  by (simp add: numeral_3_eq_3)

lemmas eval_timestamp =
  py_int_def py_mod_def format_d_def str_nat.simps digit_char_def replicate_2 replicate_3

lemmas eval_spec =
  spec_timestamp_def spec_hours_def spec_minutes_def spec_seconds_def spec_millis_def
  real_mod_def frac_def zero_pad_def str_nat.simps digit_char_def replicate_2

lemma format_timestamp_zero_srt: "format_timestamp 0 ''srt'' = ''00:00:00,000''"
  by (simp add: format_timestamp_def eval_timestamp)

lemma format_timestamp_zero_vtt: "format_timestamp 0 ''vtt'' = ''00:00:00.000''"
  by (simp add: format_timestamp_def eval_timestamp)

lemma format_timestamp_3661_srt: "format_timestamp 3661.25 ''srt'' = ''01:01:01,250''"
  by (simp add: format_timestamp_def eval_timestamp)

section \<open>Timestamp formatting follows the stated rule\<close>

text \<open>
  Claim C5. For every non-negative real number of seconds the formatter returns the fields
  hours = floor (seconds / 3600), minutes = floor ((seconds mod 3600) / 60), whole seconds =
  floor (seconds mod 60) and milliseconds = floor (fractional part * 1000), padded with zeros to
  2, 2, 2 and 3 digits, with a comma before the milliseconds for srt and a period for vtt.
  The hours field has at least two digits, the minutes and seconds fields have exactly two,
  the milliseconds field has exactly three digits and is at most 999, and \<open>format 0 = "00:00:00,000"\<close> (srt),
  \<open>"00:00:00.000"\<close> (vtt), \<open>format 3661.25 = "01:01:01,250"\<close>.
\<close>

theorem format_timestamp_rule:
  assumes "0 \<le> s"
  shows "format_timestamp s ''srt'' = spec_timestamp '','' s
       \<and> format_timestamp s ''vtt'' = spec_timestamp ''.'' s
       \<and> 2 \<le> length (zero_pad 2 (spec_hours s))
       \<and> length (zero_pad 2 (spec_minutes s)) = 2
       \<and> length (zero_pad 2 (spec_seconds s)) = 2
       \<and> length (zero_pad 3 (spec_millis s)) = 3
       \<and> spec_millis s \<le> 999
       \<and> format_timestamp 0 ''srt'' = ''00:00:00,000''
       \<and> format_timestamp 0 ''vtt'' = ''00:00:00.000''
       \<and> format_timestamp 3661.25 ''srt'' = ''01:01:01,250''"
proof -
  have "spec_minutes s < 100" using spec_minutes_less [of s] by simp
  then have m: "length (zero_pad 2 (spec_minutes s)) = 2" by (rule length_zero_pad_2)
  have "spec_seconds s < 100" using spec_seconds_less [of s] by simp
  then have sc: "length (zero_pad 2 (spec_seconds s)) = 2" by (rule length_zero_pad_2)
  have "spec_millis s < 1000" using spec_millis_le [of s] by simp
  then have ms: "length (zero_pad 3 (spec_millis s)) = 3" by (rule length_zero_pad_3)
  have h: "2 \<le> length (zero_pad 2 (spec_hours s))" by (simp add: length_zero_pad)
  from assms h m sc ms show ?thesis
    by (simp only: format_timestamp_srt_nonneg format_timestamp_vtt_nonneg spec_millis_le
        format_timestamp_zero_srt format_timestamp_zero_vtt format_timestamp_3661_srt simp_thms)
qed

theorem format_timestamp_rule_witness:
  "(0::real) \<le> 5025.5
   \<and> format_timestamp 5025.5 ''srt'' = ''01:23:45,500''
   \<and> format_timestamp 5025.5 ''vtt'' = ''01:23:45.500''
   \<and> length (zero_pad 3 (spec_millis 5025.5)) = 3
   \<and> spec_millis 5025.5 = 500"
proof -
  have h: "(0::real) \<le> 5025.5" by simp
  have v: "spec_timestamp '','' 5025.5 = ''01:23:45,500''" by (simp add: eval_spec)
  have w: "spec_timestamp ''.'' 5025.5 = ''01:23:45.500''" by (simp add: eval_spec)
  have ms: "spec_millis 5025.5 = 500" by (simp add: spec_millis_def frac_def)
  note r = format_timestamp_rule [OF h]
  from r have "format_timestamp 5025.5 ''srt'' = spec_timestamp '','' 5025.5" by (rule conjunct1)
  moreover from r have "format_timestamp 5025.5 ''vtt'' = spec_timestamp ''.'' 5025.5" by blast
  moreover from r have "length (zero_pad 3 (spec_millis 5025.5)) = 3" by blast
  ultimately show ?thesis using h v w ms by (simp only: simp_thms)
qed

section \<open>The three copies of the serializer\<close>

lemma App_format_timestamp_eq: "App_format_timestamp = format_timestamp"
  by (intro ext) (simp add: App_format_timestamp_def format_timestamp_def)

lemma App_write_segments_eq:
  "App_write_segments output_format i segments f = write_segments output_format i segments f"
  by (induction segments arbitrary: i f) (simp_all add: App_format_timestamp_eq Let_def)

lemma App_batch_write_segments_eq:
  "App_batch_write_segments output_format j segments f = write_segments output_format j segments f"
  by (induction segments arbitrary: j f) (simp_all add: App_format_timestamp_eq Let_def)

lemma App_save_transcription_eq: "App_save_transcription = save_transcription"
  by (intro ext) (simp add: App_save_transcription_def save_transcription_def App_write_segments_eq)

lemma App_batch_save_transcription_eq: "App_batch_save_transcription = save_transcription"
  by (intro ext)
    (simp add: App_batch_save_transcription_def save_transcription_def App_batch_write_segments_eq)

lemma disk_log [simp]: "disk (App_log m a) = disk a"
  by (simp add: App_log_def)

lemma disk_press_cancel [simp]: "disk (press_cancel b a) = disk a"
  by (simp add: press_cancel_def cancel_transcription_def)

lemma cli_disk_print [simp]: "cli_disk (print m c) = cli_disk c"
  by (simp add: print_def)

lemma App_transcribe_audio_eq:
  "map_prod id disk
     (App_transcribe_audio w u audio_path model_name output_format language device a) =
   map_prod id cli_disk
     (transcribe_audio w audio_path model_name output_format language (Some device)
        (c\<lparr>cli_disk := disk a\<rparr>))"
  by (simp add: App_transcribe_audio_def transcribe_audio_def Let_def App_save_transcription_eq
      split: sum.splits)

text \<open>
  Claim C10. The serializer of the interactive path and the one of the command line agree: the
  method \<open>format_timestamp\<close> and the module-level function return the same string for every
  number of seconds and every format; the three copies of the code that writes the segments and
  saves the file (the module-level function, the method \<^verbatim>\<open>transcribe_audio\<close> and the loop body
  of the method \<^verbatim>\<open>batch_transcribe\<close>) produce the same file contents for every result, format and
  file system; and the method \<^verbatim>\<open>transcribe_audio\<close> returns what the module-level function
  returns for the same device (the same output path or the same exception) and leaves the
  same files.
\<close>

theorem serializers_agree:
  "App_format_timestamp seconds output_format = format_timestamp seconds output_format
   \<and> App_write_segments output_format i segments f = write_segments output_format i segments f
   \<and> App_batch_write_segments output_format i segments f
       = write_segments output_format i segments f
   \<and> App_save_transcription w output_file output_format result d
       = save_transcription w output_file output_format result d
   \<and> App_batch_save_transcription w output_file output_format result d
       = save_transcription w output_file output_format result d
   \<and> map_prod id disk
         (App_transcribe_audio w u audio_path model_name output_format language device a)
       = map_prod id cli_disk
           (transcribe_audio w audio_path model_name output_format language (Some device)
              (c\<lparr>cli_disk := disk a\<rparr>))"
  by (simp only: App_format_timestamp_eq App_write_segments_eq App_batch_write_segments_eq
      App_save_transcription_eq App_batch_save_transcription_eq App_transcribe_audio_eq simp_thms)

theorem serializers_agree_witness:
  "App_format_timestamp 3661.25 ''vtt'' = ''01:01:01.250''
   \<and> App_batch_write_segments ''vtt'' 0 (res_segments demo_result) []
       = write_segments ''vtt'' 0 (res_segments demo_result) []
   \<and> App_save_transcription demo_world ''d/a.srt'' ''srt'' demo_result Map.empty
       = save_transcription demo_world ''d/a.srt'' ''srt'' demo_result Map.empty"
proof -
  have "format_timestamp 3661.25 ''vtt'' = ''01:01:01.250''"
    by (simp add: format_timestamp_def eval_timestamp)
  with serializers_agree [of "3661.25" "''vtt''" 0 "res_segments demo_result" "[]" demo_world
      "''d/a.srt''" demo_result Map.empty]
    serializers_agree [of 0 "''srt''" 0 "[]" "[]" demo_world "''d/a.srt''" demo_result Map.empty]
  show ?thesis by simp
qed

section \<open>The srt format\<close>

lemma strip_decomp:
  "\<exists>l r. t = l @ strip t @ r \<and> (\<forall>c \<in> set l. isspace c) \<and> (\<forall>c \<in> set r. isspace c)"
proof -
  define m where "m = dropWhile isspace t"
  define l where "l = takeWhile isspace t"
  define r where "r = rev (takeWhile isspace (rev m))"
  have t: "t = l @ m" by (simp add: l_def m_def)
  have "rev m = takeWhile isspace (rev m) @ dropWhile isspace (rev m)" by simp
  then have "rev (rev m) = rev (takeWhile isspace (rev m) @ dropWhile isspace (rev m))"
    by (rule arg_cong)
  then have "m = rev (dropWhile isspace (rev m)) @ rev (takeWhile isspace (rev m))"
    by (simp only: rev_rev_ident rev_append)
  then have m: "m = strip t @ r" by (simp only: strip_def r_def m_def)
  have "\<forall>c \<in> set l. isspace c" by (auto simp: l_def dest: set_takeWhileD)
  moreover have "\<forall>c \<in> set r. isspace c" by (auto simp: r_def dest: set_takeWhileD)
  ultimately show ?thesis using t m by blast
qed

lemma strip_ends:
  assumes "strip t \<noteq> []"
  shows "\<not> isspace (hd (strip t))" and "\<not> isspace (last (strip t))"
proof -
  define m where "m = dropWhile isspace t"
  from assms have ne: "dropWhile isspace (rev m) \<noteq> []" by (simp add: strip_def m_def)
  then have "\<not> isspace (hd (dropWhile isspace (rev m)))" by (rule hd_dropWhile)
  then show "\<not> isspace (last (strip t))"
    using ne by (simp add: strip_def m_def last_rev)
  from ne have mne: "m \<noteq> []" by auto
  then have "\<not> isspace (hd m)" unfolding m_def by (rule hd_dropWhile)
  moreover have "hd (strip t) = hd m"
  proof -
    obtain r where "rev m = r @ dropWhile isspace (rev m)"
      by (metis takeWhile_dropWhile_id)
    then have "rev (rev m) = rev (r @ dropWhile isspace (rev m))" by (rule arg_cong)
    then have "m = strip t @ rev r" by (simp add: strip_def m_def)
    with assms show ?thesis by (metis hd_append2)
  qed
  ultimately show "\<not> isspace (hd (strip t))" by simp
qed

lemma write_segments_srt:
  "write_segments ''srt'' i segs f =
     f @ concat (map (\<lambda>n. srt_block (i + n + 1) (segs ! n)) [0..<length segs])"
proof (induction segs arbitrary: i f)
  case Nil
  show ?case by simp
next
  case (Cons seg segs)
  have "[0..<length (seg # segs)] = 0 # map Suc [0..<length segs]"
    by (simp add: upt_conv_Cons map_Suc_upt del: upt_Suc)
  then show ?case
    by (simp add: Cons.IH Let_def srt_block_def o_def del: upt_Suc)
qed

lemma write_segments_srt_document: "write_segments ''srt'' 0 segs [] = srt_document segs"
  by (simp add: write_segments_srt srt_document_def)

lemma save_transcription_srt:
  "open_raises w output_file = None \<Longrightarrow>
   save_transcription w output_file ''srt'' result d
     = Inr (d(output_file \<mapsto> srt_document (res_segments result)))"
  by (simp add: save_transcription_def write_file_def write_segments_srt_document)

lemmas eval_strip = strip_def isspace_def

lemma srt_document_demo:
  "srt_document (res_segments demo_result) =
     ''1\<newline>00:00:00,000 --> 00:00:02,500\<newline>Hello world.\<newline>\<newline>2\<newline>00:00:07,000 --> 00:00:08,250\<newline>Bye.\<newline>\<newline>''"
  by code_simp

text \<open>
  Claim C8. For every transcription result the srt output consists of one block per segment,
  in the order of the result: the block of the \<open>n\<close>-th segment holds the index \<open>n\<close> (counted from
  1), then the timestamp line, then the text of the segment without its leading and trailing
  whitespace, then an empty line. The indices are 1, 2, 3, ... whatever the times of the
  segments are. This holds for the module-level function and for both copies in the
  application class; the trimmed text is the original text without a whitespace prefix and a
  whitespace suffix, and it neither starts nor ends with whitespace.
\<close>

theorem srt_output_numbers_segments_in_order:
  "write_segments ''srt'' 0 segs [] = srt_document segs
   \<and> App_write_segments ''srt'' 0 segs [] = srt_document segs
   \<and> App_batch_write_segments ''srt'' 0 segs [] = srt_document segs
   \<and> (open_raises w output_file = None \<longrightarrow>
        save_transcription w output_file ''srt'' result d
          = Inr (d(output_file \<mapsto> srt_document (res_segments result))))
   \<and> (\<exists>l r. seg_text seg = l @ strip (seg_text seg) @ r
          \<and> (\<forall>c \<in> set l. isspace c) \<and> (\<forall>c \<in> set r. isspace c))
   \<and> (strip (seg_text seg) \<noteq> [] \<longrightarrow>
        \<not> isspace (hd (strip (seg_text seg))) \<and> \<not> isspace (last (strip (seg_text seg))))"
proof (intro conjI impI)
  show "write_segments ''srt'' 0 segs [] = srt_document segs"
    by (rule write_segments_srt_document)
  show "App_write_segments ''srt'' 0 segs [] = srt_document segs"
    by (simp only: App_write_segments_eq write_segments_srt_document)
  show "App_batch_write_segments ''srt'' 0 segs [] = srt_document segs"
    by (simp only: App_batch_write_segments_eq write_segments_srt_document)
  show "save_transcription w output_file ''srt'' result d
          = Inr (d(output_file \<mapsto> srt_document (res_segments result)))"
    if "open_raises w output_file = None"
    using that by (rule save_transcription_srt)
  show "\<exists>l r. seg_text seg = l @ strip (seg_text seg) @ r
          \<and> (\<forall>c \<in> set l. isspace c) \<and> (\<forall>c \<in> set r. isspace c)"
    by (rule strip_decomp)
  show "\<not> isspace (hd (strip (seg_text seg)))" if "strip (seg_text seg) \<noteq> []"
    using that by (rule strip_ends)
  show "\<not> isspace (last (strip (seg_text seg)))" if "strip (seg_text seg) \<noteq> []"
    using that by (rule strip_ends)
qed

theorem srt_output_numbers_segments_in_order_witness:
  "open_raises demo_world ''d/a.srt'' = None
   \<and> save_transcription demo_world ''d/a.srt'' ''srt'' demo_result Map.empty
       = Inr [''d/a.srt'' \<mapsto>
           ''1\<newline>00:00:00,000 --> 00:00:02,500\<newline>Hello world.\<newline>\<newline>2\<newline>00:00:07,000 --> 00:00:08,250\<newline>Bye.\<newline>\<newline>'']
   \<and> strip '' Bye. '' = ''Bye.''"
proof -
  have o: "open_raises demo_world ''d/a.srt'' = None"
    by (simp add: demo_world_def)
  have s: "strip '' Bye. '' = ''Bye.''"
    by (simp add: eval_strip)
  from srt_output_numbers_segments_in_order
    [of "res_segments demo_result" demo_world "''d/a.srt''" demo_result Map.empty
      "\<lparr>seg_start = 7, seg_end = 8.25, seg_text = '' Bye. ''\<rparr>"]
  have "open_raises demo_world ''d/a.srt'' = None \<longrightarrow>
        save_transcription demo_world ''d/a.srt'' ''srt'' demo_result Map.empty
          = Inr [''d/a.srt'' \<mapsto> srt_document (res_segments demo_result)]"
    by blast
  with o s show ?thesis by (simp only: srt_document_demo simp_thms)
qed

section \<open>The vtt format\<close>

lemma write_segments_vtt:
  "write_segments ''vtt'' i segs f =
     (if i = 0 \<and> segs \<noteq> [] then f @ ''WEBVTT\<newline>\<newline>'' else f) @ concat (map vtt_block segs)"
  by (induction segs arbitrary: i f) (simp_all add: Let_def vtt_block_def)

text \<open>
  For a result with at least one segment the file starts with the header, which is written
  once, before the first block.
\<close>

lemma write_segments_vtt_nonempty:
  "segs \<noteq> [] \<Longrightarrow>
   write_segments ''vtt'' 0 segs [] = ''WEBVTT\<newline>\<newline>'' @ concat (map vtt_block segs)"
  by (simp add: write_segments_vtt)

text \<open>
  Claim C7 says that the vtt file starts with the header line \<open>WEBVTT\<close> and an empty line for
  every result, one without segments included. The code writes the header inside the loop over
  the segments, when the index is 0, so a result without segments gives an empty file. Here a
  recording of silence, for which the engine returns no segment, is transcribed to vtt by the
  module-level function and by the method: both write the empty file \<open>s.vtt\<close>.
\<close>

theorem vtt_header_missing_without_segments:
  "write_segments ''vtt'' 0 [] [] = []
   \<and> (case transcribe_audio
              (demo_world\<lparr>model_transcribe := (\<lambda>model path opts. Inr silent_result)\<rparr>)
              ''s.wav'' ''base'' ''vtt'' None None demo_cli of
         (r, c) \<Rightarrow> r = Inr ''s.vtt'' \<and> cli_disk c ''s.vtt'' = Some [])
   \<and> (case App_transcribe_audio
              (demo_world\<lparr>model_transcribe := (\<lambda>model path opts. Inr silent_result)\<rparr>)
              no_cancel ''s.wav'' ''base'' ''vtt'' None ''cpu'' demo_app of
         (r, a) \<Rightarrow> r = Inr ''s.vtt'' \<and> disk a ''s.vtt'' = Some [])"
  by code_simp

section \<open>Segment times below zero\<close>

lemma transcribe_audio_writes_segments:
  assumes "load_model_raises w model_name device = None"
    and "model_transcribe w (Model model_name device) audio_path
           (make_transcribe_options device language) = Inr result"
    and "open_raises w (splitext_root audio_path @ ''.'' @ output_format) = None"
    and "output_format = ''srt'' \<or> output_format = ''vtt''"
  shows "case transcribe_audio w audio_path model_name output_format language (Some device) c of
           (r, c') \<Rightarrow>
             r = Inr (splitext_root audio_path @ ''.'' @ output_format)
             \<and> cli_disk c' (splitext_root audio_path @ ''.'' @ output_format)
                 = Some (write_segments output_format 0 (res_segments result) [])"
  using assms
  by (auto simp add: transcribe_audio_def load_model_def save_transcription_def write_file_def
      Let_def)

lemma format_timestamp_between_minus_one_and_zero:
  assumes "- 1 < s" and "s < 0"
  shows "format_timestamp s ''srt'' = ''00:59:59,'' @ format_d 3 (- \<lfloor>- (s * 1000)\<rfloor>)"
proof -
  have h: "py_int (s / 3600) = 0"
  proof -
    from assms have "0 \<le> - (s / 3600)" and "- (s / 3600) < 1" by simp_all
    then have "\<lfloor>- (s / 3600)\<rfloor> = 0" by (simp add: floor_eq_iff)
    with assms show ?thesis by (simp add: py_int_def)
  qed
  have f3600: "\<lfloor>s / 3600\<rfloor> = - 1"
    using assms by (simp add: floor_eq_iff)
  have f60: "\<lfloor>s / 60\<rfloor> = - 1"
    using assms by (simp add: floor_eq_iff)
  have m: "py_int (py_mod s 3600 / 60) = 59"
  proof -
    have "py_mod s 3600 / 60 = (s + 3600) / 60" by (simp add: py_mod_def f3600)
    moreover from assms have "\<lfloor>(s + 3600) / 60\<rfloor> = 59" by (simp add: floor_eq_iff)
    moreover from assms have "0 \<le> (s + 3600) / 60" by simp
    ultimately show ?thesis by (simp add: py_int_nonneg)
  qed
  have sc: "py_int (py_mod s 60) = 59"
  proof -
    have "py_mod s 60 = s + 60" by (simp add: py_mod_def f60)
    moreover have "\<lfloor>s + 60\<rfloor> = 59"
    proof -
      from assms have "\<lfloor>s\<rfloor> = - 1" by (simp add: floor_eq_iff)
      then show ?thesis by simp
    qed
    moreover from assms have "0 \<le> s + 60" by simp
    ultimately show ?thesis by (simp add: py_int_nonneg)
  qed
  have i: "py_int s = 0"
  proof -
    from assms have "\<lfloor>- s\<rfloor> = 0" by (simp add: floor_eq_iff)
    with assms show ?thesis by (simp add: py_int_def)
  qed
  have ms: "py_int ((s - of_int (py_int s)) * 1000) = - \<lfloor>- (s * 1000)\<rfloor>"
  proof -
    have e: "(s - of_int (py_int s)) * 1000 = s * 1000" by (simp add: i)
    from assms have "s * 1000 < 0" by simp
    then have "py_int (s * 1000) = - \<lfloor>- (s * 1000)\<rfloor>" by (simp add: py_int_def)
    then show ?thesis by (simp only: e)
  qed
  have d0: "format_d 2 0 = ''00''"
    by (simp add: format_d_def str_nat.simps digit_char_def)
  have d59: "format_d 2 59 = ''59''"
    by (simp add: format_d_def str_nat.simps digit_char_def)
  show ?thesis
    unfolding format_timestamp_def Let_def
    by (simp only: h m sc ms d0 d59) simp
qed

text \<open>
  Claim C6 says that a segment with a negative start or end time makes the serialization fail
  loudly. The code has no check of the sign: the formatter computes its fields from a negative
  number as from any other, and the file is written. Here the engine returns a segment that
  starts at -1.5 seconds; the formatter returns \<open>00:59:58,-500\<close> and the module-level
  \<^verbatim>\<open>transcribe_audio\<close> returns the output path, having written that timestamp into the file.
\<close>

theorem negative_segment_time_is_written:
  "format_timestamp (- 1.5) ''srt'' = ''00:59:58,-500''
   \<and> App_format_timestamp (- 1.5) ''srt'' = ''00:59:58,-500''
   \<and> (case transcribe_audio
              (demo_world\<lparr>model_transcribe := (\<lambda>model path opts. Inr negative_result)\<rparr>)
              ''n.wav'' ''base'' ''srt'' None None demo_cli of
         (r, c) \<Rightarrow>
           r = Inr ''n.srt''
           \<and> cli_disk c ''n.srt''
               = Some ''1\<newline>00:59:58,-500 --> 00:00:01,000\<newline>hi\<newline>\<newline>'')"
  by code_simp

text \<open>
  Claim C6 as amended. The serialization does not look at the sign of the segment times. Whenever
  the model loads, the engine returns a result and the output file can be opened, the srt or vtt
  file is written from the segments of the result and the output path is returned, whatever
  the start and end times are: no error is raised and no time is replaced by another. A negative
  time goes through the same arithmetic as any other (\<^verbatim>\<open>int\<close> truncates towards zero, \<^verbatim>\<open>%\<close>
  takes the sign of the divisor), so that a time strictly between -1 and 0 is printed as
  \<open>00:59:59,\<close> followed by its negative number of milliseconds.
\<close>

theorem segment_times_are_not_checked:
  assumes "load_model_raises w model_name device = None"
    and "model_transcribe w (Model model_name device) audio_path
           (make_transcribe_options device language) = Inr result"
    and "open_raises w (splitext_root audio_path @ ''.'' @ output_format) = None"
    and "output_format = ''srt'' \<or> output_format = ''vtt''"
    and "- 1 < s" and "s < 0"
  shows "(case transcribe_audio w audio_path model_name output_format language (Some device) c of
            (r, c') \<Rightarrow>
              r = Inr (splitext_root audio_path @ ''.'' @ output_format)
              \<and> cli_disk c' (splitext_root audio_path @ ''.'' @ output_format)
                  = Some (write_segments output_format 0 (res_segments result) []))
       \<and> format_timestamp s ''srt'' = ''00:59:59,'' @ format_d 3 (- \<lfloor>- (s * 1000)\<rfloor>)
       \<and> App_format_timestamp s ''srt'' = ''00:59:59,'' @ format_d 3 (- \<lfloor>- (s * 1000)\<rfloor>)"
  using transcribe_audio_writes_segments [OF assms(1-4), of c]
    format_timestamp_between_minus_one_and_zero [OF assms(5,6)]
  by (simp only: App_format_timestamp_eq simp_thms)

theorem segment_times_are_not_checked_witness:
  "(case transcribe_audio
            (demo_world\<lparr>model_transcribe := (\<lambda>model path opts. Inr negative_result)\<rparr>)
            ''n.wav'' ''base'' ''srt'' None (Some ''cpu'') demo_cli of
       (r, c') \<Rightarrow>
         r = Inr ''n.srt''
         \<and> cli_disk c' ''n.srt'' = Some (write_segments ''srt'' 0 (res_segments negative_result) []))
   \<and> format_timestamp (- 0.25) ''srt'' = ''00:59:59,-250''"
proof -
  let ?w = "demo_world\<lparr>model_transcribe := (\<lambda>model path opts. Inr negative_result)\<rparr>"
  have 1: "load_model_raises ?w ''base'' ''cpu'' = None"
    by (simp add: demo_world_def)
  have 2: "model_transcribe ?w (Model ''base'' ''cpu'') ''n.wav''
             (make_transcribe_options ''cpu'' None) = Inr negative_result"
    by simp
  have p: "splitext_root ''n.wav'' @ ''.'' @ ''srt'' = ''n.srt''"
    by code_simp
  have 3: "open_raises ?w (splitext_root ''n.wav'' @ ''.'' @ ''srt'') = None"
    by (simp add: demo_world_def)
  have 4: "''srt'' = ''srt'' \<or> ''srt'' = ''vtt''" by simp
  have 5: "- 1 < (- 0.25 :: real)" and 6: "(- 0.25 :: real) < 0" by simp_all
  have d: "format_d 3 (- \<lfloor>- (- 0.25 * 1000 :: real)\<rfloor>) = ''-250''"
    by (simp add: eval_timestamp)
  from segment_times_are_not_checked [OF 1 2 3 4 5 6, of demo_cli]
  show ?thesis by (simp only: p d) simp
qed

section \<open>Choosing the device\<close>

text \<open>
  Claim C4 says that asking for the accelerated device when there is none gives a
  \<open>DeviceUnavailable\<close> error, and that the unavailable device is never passed through. The code
  has no such error. With no GPU in the world, \<^verbatim>\<open>get_device\<close> returns \<open>cuda\<close> when the device
  variable holds \<open>cuda\<close>, and \<^verbatim>\<open>main\<close> passes on \<open>cuda\<close> when \<^verbatim>\<open>--device cuda\<close> is given.
\<close>

theorem unavailable_cuda_is_passed_through:
  "\<not> cuda_is_available demo_world
   \<and> get_device demo_world (demo_app\<lparr>device_var := ''cuda''\<rparr>) = ''cuda''
   \<and> main_device demo_world (Some ''cuda'') = ''cuda''"
  by (simp add: demo_world_def get_device_def main_device_def)

text \<open>
  Claim C4 as amended. A device that the caller names is returned as it is, whether or not it
  is available: \<^verbatim>\<open>get_device\<close> returns every choice other than \<open>auto\<close> unchanged and \<^verbatim>\<open>main\<close>
  passes on the value of \<^verbatim>\<open>--device\<close>; no error is reported and no other device is put in
  its place. The availability is read only for \<open>auto\<close> (and for a missing \<^verbatim>\<open>--device\<close>), which
  gives \<open>cuda\<close> when a GPU is available and \<open>cpu\<close> otherwise. The interactive front end keeps
  the user from the case: when there is no GPU, \<^verbatim>\<open>check_gpu\<close> does not offer \<open>cuda\<close> in the
  dropdown and leaves a device variable that is not \<open>cuda\<close>.
\<close>

theorem explicit_device_is_returned_unchanged:
  "(device_var a \<noteq> ''auto'' \<longrightarrow> get_device w a = device_var a)
   \<and> main_device w (Some device) = device
   \<and> (device_var a = ''auto'' \<longrightarrow>
        get_device w a = (if cuda_is_available w then ''cuda'' else ''cpu''))
   \<and> main_device w None = (if cuda_is_available w then ''cuda'' else ''cpu'')
   \<and> (\<not> cuda_is_available w \<longrightarrow>
        device_var (check_gpu w gpu_message a) \<noteq> ''cuda''
        \<and> ''cuda'' \<notin> set (device_dropdown_values (check_gpu w gpu_message a)))"
  by (auto simp add: get_device_def main_device_def check_gpu_def App_log_def Let_def)

theorem explicit_device_is_returned_unchanged_witness:
  "device_var (demo_app\<lparr>device_var := ''cuda''\<rparr>) \<noteq> ''auto''
   \<and> get_device demo_world (demo_app\<lparr>device_var := ''cuda''\<rparr>) = ''cuda''
   \<and> get_device demo_world demo_app = ''cpu''
   \<and> \<not> cuda_is_available demo_world
   \<and> device_var (check_gpu demo_world ''GPU not available, using CPU''
        (demo_app\<lparr>device_var := ''cuda''\<rparr>)) = ''auto''"
proof -
  have 1: "device_var (demo_app\<lparr>device_var := ''cuda''\<rparr>) \<noteq> ''auto''" by simp
  have 2: "device_var demo_app = ''auto''" by (simp add: demo_app_def)
  have 3: "\<not> cuda_is_available demo_world" by (simp add: demo_world_def)
  have 4: "device_var (check_gpu demo_world ''GPU not available, using CPU''
        (demo_app\<lparr>device_var := ''cuda''\<rparr>)) = ''auto''"
    by (simp add: check_gpu_def demo_world_def App_log_def Let_def)
  from explicit_device_is_returned_unchanged
    [of "demo_app\<lparr>device_var := ''cuda''\<rparr>" demo_world "''cuda''"]
    explicit_device_is_returned_unchanged [of demo_app demo_world "''cuda''"]
    1 2 3 4
  show ?thesis by simp
qed

section \<open>The temporary file of the web handler\<close>

lemma transcribe_as_written_raises_NameError:
  "files_file req \<noteq> None \<Longrightarrow>
   transcribe app_py_globals w req d = (Inl (Exc ''NameError'' ''name 'torch' is not defined''), d)"
  by (auto simp add: transcribe_def app_py_globals_def Let_def)

lemma transcribe_as_written_keeps_disk: "snd (transcribe app_py_globals w req d) = d"
  by (auto simp add: transcribe_def app_py_globals_def Let_def split: option.splits)

text \<open>
  Claim C9 says that the handler saves the uploaded file to the scratch location, runs the
  inference on it and removes it afterwards in every case, also when the inference raises;
  the comments of the handler say the same (\<^verbatim>\<open># Save the uploaded file temporarily\<close>,
  \<^verbatim>\<open># Load Whisper model and transcribe\<close>, \<^verbatim>\<open># Clean up temporary file\<close>). The handler does
  none of the three. Line 16 reads the name \<^verbatim>\<open>torch\<close>, which \<^verbatim>\<open>app.py\<close> never imports
  (its imports are \<^verbatim>\<open>flask\<close>, \<^verbatim>\<open>whisper\<close> and \<^verbatim>\<open>os\<close>), so the request for the upload
  \<open>a.wav\<close> ends in \<^verbatim>\<open>NameError\<close> before \<^verbatim>\<open>audio_file.save\<close> at line 20: nothing is written
  under \<open>temp/\<close>, the engine is not called (the result is the \<^verbatim>\<open>NameError\<close> also in a world
  whose engine would raise \<^verbatim>\<open>RuntimeError\<close>, and no text comes back in a world whose engine
  would have returned one), and \<^verbatim>\<open>os.remove\<close> at line 27 is not reached.
\<close>

theorem upload_is_never_saved_nor_transcribed:
  "fst (transcribe app_py_globals demo_world demo_upload Map.empty)
     = Inl (Exc ''NameError'' ''name 'torch' is not defined'')
   \<and> snd (transcribe app_py_globals demo_world demo_upload Map.empty) ''temp/a.wav'' = None
   \<and> model_transcribe demo_world
         (Model ''base'' (if cuda_is_available demo_world then ''cuda'' else ''cpu''))
         ''temp/a.wav'' default_transcribe_options = Inr demo_result
   \<and> fst (transcribe app_py_globals corrupt_world demo_upload Map.empty)
       = Inl (Exc ''NameError'' ''name 'torch' is not defined'')
   \<and> snd (transcribe app_py_globals corrupt_world demo_upload Map.empty) ''temp/a.wav'' = None"
  by code_simp

subsection \<open>Behind the unbound name\<close>

text \<open>
  The lines after line 16 are not reached by the module as it is written. Read on their own
  (that is, for a module in which the name \<^verbatim>\<open>torch\<close> is bound), they remove the file only
  when \<^verbatim>\<open>whisper.load_model\<close> and \<^verbatim>\<open>model.transcribe\<close> both return: \<^verbatim>\<open>os.remove\<close> is not
  under a \<^verbatim>\<open>try\<close>.
\<close>

lemma transcribe_keeps_file_when_inference_raises:
  assumes "''torch'' \<in> set globals"
    and "files_file req = Some (filename, content)"
    and "open_raises w (''temp/'' @ filename) = None"
    and "load_model_raises w (form_get (form_model req) ''base'')
           (if cuda_is_available w then ''cuda'' else ''cpu'') = None"
    and "model_transcribe w
           (Model (form_get (form_model req) ''base'')
              (if cuda_is_available w then ''cuda'' else ''cpu''))
           (''temp/'' @ filename) default_transcribe_options = Inl e"
  shows "transcribe globals w req d = (Inl e, d(''temp/'' @ filename \<mapsto> content))"
  using assms by (simp add: transcribe_def write_file_def load_model_def Let_def)

section \<open>One file of a batch\<close>

lemma log_fields [simp]:
  "processing (App_log m a) = processing a"
  "status_var (App_log m a) = status_var a"
  "progress_var (App_log m a) = progress_var a"
  "log_text (App_log m a) = log_text a @ [m]"
  by (simp_all add: App_log_def)

lemma show_messagebox_fields [simp]:
  "processing (show_messagebox k t m a) = processing a"
  "status_var (show_messagebox k t m a) = status_var a"
  "progress_var (show_messagebox k t m a) = progress_var a"
  "log_text (show_messagebox k t m a) = log_text a"
  by (simp_all add: show_messagebox_def)

lemma press_cancel_False [simp]: "press_cancel False a = a"
  by (simp add: press_cancel_def)

lemma press_cancel_not_processing [simp]: "\<not> processing a \<Longrightarrow> press_cancel b a = a"
  by (simp add: press_cancel_def cancel_transcription_def)

lemma processing_press_cancel [simp]:
  "processing (press_cancel b a) \<longleftrightarrow> processing a \<and> \<not> b"
  by (simp add: press_cancel_def cancel_transcription_def)

lemma progress_press_cancel [simp]: "progress_var (press_cancel b a) = progress_var a"
  by (simp add: press_cancel_def cancel_transcription_def)

lemma error_lines_press_cancel [simp]:
  "filter is_error_line (log_text (press_cancel b a)) = filter is_error_line (log_text a)"
  by (simp add: press_cancel_def cancel_transcription_def is_error_line_def)

text \<open>
  The invariant behind the states of a run: while the flag is up the run goes on, and once
  the flag is down the status line says that the user cancelled.
\<close>

lemma running_or_cancelled_log [simp]:
  "running_or_cancelled (App_log m a) = running_or_cancelled a"
  by (simp add: running_or_cancelled_def)

lemma running_or_cancelled_disk [simp]:
  "running_or_cancelled (a\<lparr>disk := d\<rparr>) = running_or_cancelled a"
  by (simp add: running_or_cancelled_def)

lemma running_or_cancelled_press_cancel:
  "running_or_cancelled a \<Longrightarrow> running_or_cancelled (press_cancel b a)"
  by (auto simp add: running_or_cancelled_def press_cancel_def cancel_transcription_def)

lemma write_file_opened:
  "open_raises w output_file = None \<Longrightarrow>
   write_file w output_file content d = Inr (d(output_file \<mapsto> content))"
  by (simp add: write_file_def)

lemma write_file_not_opened:
  "open_raises w output_file = Some e \<Longrightarrow> write_file w output_file content d = Inl e"
  by (simp add: write_file_def)

lemma save_transcription_opened:
  "open_raises w output_file = None \<Longrightarrow>
   \<exists>d'. save_transcription w output_file output_format result d = Inr d'"
  unfolding save_transcription_def
  by (simp only: write_file_opened split: if_split) blast

lemma save_transcription_not_opened:
  "open_raises w output_file = Some e \<Longrightarrow>
   (\<forall>d. save_transcription w output_file output_format result d = Inl e)
   \<or> (\<forall>d. save_transcription w output_file output_format result d = Inr d)"
  unfolding save_transcription_def
  by (simp only: write_file_not_opened split: if_split) blast

lemma save_transcription_Inl_any_disk:
  assumes "save_transcription w output_file output_format result d = Inl e"
  shows "save_transcription w output_file output_format result d' = Inl e"
proof (cases "open_raises w output_file")
  case None
  from save_transcription_opened [OF None, of output_format result d] assms
  show ?thesis by simp
next
  case (Some e')
  from save_transcription_not_opened [OF Some, of output_format result] assms
  show ?thesis by auto
qed

lemma save_transcription_Inr_any_disk:
  assumes "save_transcription w output_file output_format result d = Inr d1"
  shows "\<exists>d2. save_transcription w output_file output_format result d' = Inr d2"
proof (cases "open_raises w output_file")
  case None
  then show ?thesis by (rule save_transcription_opened)
next
  case (Some e')
  from save_transcription_not_opened [OF Some, of output_format result] assms
  show ?thesis by auto
qed

lemma App_batch_file_outcome:
  "fst (App_batch_file w u model output_format language device n i audio_file a)
     = file_outcome w model output_format language device audio_file"
proof (cases "model_transcribe w model audio_file (make_transcribe_options device language)")
  case (Inl e)
  then show ?thesis
    by (simp add: App_batch_file_def file_outcome_def Let_def)
next
  case (Inr result)
  let ?out = "splitext_root audio_file @ ''.'' @ output_format"
  show ?thesis
  proof (cases "save_transcription w ?out output_format result Map.empty")
    case (Inl e)
    then have "save_transcription w ?out output_format result (disk a) = Inl e"
      by (rule save_transcription_Inl_any_disk)
    with Inl Inr show ?thesis
      by (simp add: App_batch_file_def file_outcome_def Let_def App_batch_save_transcription_eq)
  next
    case (Inr d)
    then obtain d2 where "save_transcription w ?out output_format result (disk a) = Inr d2"
      using save_transcription_Inr_any_disk by blast
    with Inr \<open>model_transcribe w model audio_file (make_transcribe_options device language)
        = Inr result\<close>
    show ?thesis
      by (simp add: App_batch_file_def file_outcome_def Let_def App_batch_save_transcription_eq)
  qed
qed

lemma processing_App_batch_file:
  "processing (snd (App_batch_file w u model output_format language device n i audio_file a))
     \<longleftrightarrow> processing a \<and> \<not> cancel_during u i"
  by (simp add: App_batch_file_def Let_def split: sum.splits)

lemma progress_App_batch_file:
  "progress_var (snd (App_batch_file w u model output_format language device n i audio_file a))
     = progress_var a"
  by (simp add: App_batch_file_def Let_def split: sum.splits)

lemma error_lines_App_batch_file:
  "filter is_error_line
     (log_text (snd (App_batch_file w u model output_format language device n i audio_file a)))
     = filter is_error_line (log_text a)"
  by (simp add: App_batch_file_def Let_def is_error_line_def split: sum.splits)

lemma running_or_cancelled_App_batch_file:
  "processing a \<Longrightarrow>
   running_or_cancelled
     (snd (App_batch_file w u model output_format language device n i audio_file a))"
  by (auto simp add: App_batch_file_def Let_def running_or_cancelled_def press_cancel_def
      cancel_transcription_def App_log_def split: sum.splits)

text \<open>What a started file writes does not depend on the presses of the Cancel button.\<close>

lemma App_batch_file_disk_any_user:
  "disk (snd (App_batch_file w u model output_format language device n i audio_file a))
     = disk (snd (App_batch_file w no_cancel model output_format language device n i audio_file
                    a))"
  by (simp add: App_batch_file_def Let_def split: sum.splits)

section \<open>The loop over the files of a directory\<close>

lemma running_or_cancelled_App_batch_loop:
  "running_or_cancelled a \<Longrightarrow>
   running_or_cancelled
     (snd (App_batch_loop w u model output_format language device n i audio_files output_files a))"
proof (induction audio_files arbitrary: i output_files a)
  case Nil
  then show ?case by simp
next
  case (Cons audio_file audio_files)
  let ?a1 = "press_cancel (cancel_before u i) a"
  from Cons.prems have a1: "running_or_cancelled ?a1"
    by (rule running_or_cancelled_press_cancel)
  show ?case
  proof (cases "processing ?a1")
    case False
    with a1 show ?thesis by (simp add: Let_def)
  next
    case True
    obtain r a2 where bf:
      "App_batch_file w u model output_format language device n i audio_file ?a1 = (r, a2)"
      by (cases "App_batch_file w u model output_format language device n i audio_file ?a1")
    from running_or_cancelled_App_batch_file [OF True, of w u model output_format language
        device n i audio_file] bf
    have a2: "running_or_cancelled a2" by simp
    show ?thesis
    proof (cases r)
      case (Inl e)
      from a2 have "running_or_cancelled
          (App_log (''Error processing '' @ audio_file @ '': '' @ exc_str e) a2)"
        by simp
      from Cons.IH [OF this] True bf Inl show ?thesis by (simp add: Let_def)
    next
      case (Inr output_file)
      from Cons.IH [OF a2] True bf Inr show ?thesis by (simp add: Let_def)
    qed
  qed
qed

lemma progress_App_batch_loop:
  "progress_var
     (snd (App_batch_loop w u model output_format language device n i audio_files output_files a))
     = progress_var a"
proof (induction audio_files arbitrary: i output_files a)
  case Nil
  show ?case by simp
next
  case (Cons audio_file audio_files)
  let ?a1 = "press_cancel (cancel_before u i) a"
  show ?case
  proof (cases "processing ?a1")
    case False
    then show ?thesis by (simp add: Let_def)
  next
    case True
    then have a1: "?a1 = a" by simp
    obtain r a2 where bf:
      "App_batch_file w u model output_format language device n i audio_file a = (r, a2)"
      by (cases "App_batch_file w u model output_format language device n i audio_file a")
    from progress_App_batch_file [of w u model output_format language device n i audio_file a] bf
    have a2: "progress_var a2 = progress_var a" by simp
    show ?thesis
    proof (cases r)
      case (Inl e)
      with True bf a2 show ?thesis by (simp add: Let_def a1 Cons.IH)
    next
      case (Inr output_file)
      with True bf a2 show ?thesis by (simp add: Let_def a1 Cons.IH)
    qed
  qed
qed

text \<open>
  Without a press of the Cancel button the loop goes through all files: it returns the output
  paths of the files that succeed, logs one error line for every file that fails, and leaves
  the flag up.
\<close>

lemma App_batch_loop_no_cancel:
  assumes "processing a"
    and "\<forall>j. i \<le> j \<and> j < i + length audio_files \<longrightarrow> \<not> cancel_before u j \<and> \<not> cancel_during u j"
  shows "fst (App_batch_loop w u model output_format language device n i audio_files
                output_files a)
           = output_files
               @ output_paths (file_outcome w model output_format language device) audio_files
       \<and> processing (snd (App_batch_loop w u model output_format language device n i audio_files
                             output_files a))
       \<and> filter is_error_line
           (log_text (snd (App_batch_loop w u model output_format language device n i
                             audio_files output_files a)))
           = filter is_error_line (log_text a)
               @ error_lines (file_outcome w model output_format language device) audio_files"
  using assms
proof (induction audio_files arbitrary: i output_files a)
  case Nil
  then show ?case by simp
next
  case (Cons audio_file audio_files)
  from Cons.prems(2) have nb: "\<not> cancel_before u i" and nd: "\<not> cancel_during u i"
    by simp_all
  from Cons.prems(2) have rest:
    "\<forall>j. i + 1 \<le> j \<and> j < (i + 1) + length audio_files \<longrightarrow>
       \<not> cancel_before u j \<and> \<not> cancel_during u j"
    by simp
  obtain r a2 where bf:
    "App_batch_file w u model output_format language device n i audio_file a = (r, a2)"
    by (cases "App_batch_file w u model output_format language device n i audio_file a")
  from App_batch_file_outcome [of w u model output_format language device n i audio_file a] bf
  have r: "file_outcome w model output_format language device audio_file = r" by simp
  from processing_App_batch_file [of w u model output_format language device n i audio_file a]
    bf Cons.prems(1) nd
  have p2: "processing a2" by simp
  from error_lines_App_batch_file [of w u model output_format language device n i audio_file a]
    bf
  have l2: "filter is_error_line (log_text a2) = filter is_error_line (log_text a)" by simp
  show ?case
  proof (cases r)
    case (Inl e)
    let ?a3 = "App_log (''Error processing '' @ audio_file @ '': '' @ exc_str e) a2"
    from p2 have p3: "processing ?a3" by simp
    have l3: "filter is_error_line (log_text ?a3)
        = filter is_error_line (log_text a) @ [''Error processing '' @ audio_file @ '': '' @ exc_str e]"
      by (simp add: l2 is_error_line_def)
    from Cons.IH [OF p3 rest, of output_files] Cons.prems(1) nb bf Inl r l3
    show ?thesis by (simp add: Let_def)
  next
    case (Inr output_file)
    from Cons.IH [OF p2 rest, of "output_files @ [output_file]"] Cons.prems(1) nb bf Inr r l2
    show ?thesis by (simp add: Let_def)
  qed
qed

text \<open>
  A press of the Cancel button between two files: the loop over \<open>pre @ post\<close> does what the
  loop over \<open>pre\<close> does, followed by \<^verbatim>\<open>cancel_transcription\<close>, and nothing else. No file of
  \<open>post\<close> is started.
\<close>

lemma App_batch_loop_cancel_between:
  assumes "processing a"
    and "\<forall>j. i \<le> j \<and> j < i + length pre \<longrightarrow> \<not> cancel_before u j \<and> \<not> cancel_during u j"
    and "cancel_before u (i + length pre)"
    and "post \<noteq> []"
  shows "App_batch_loop w u model output_format language device n i (pre @ post) output_files a
           = (case App_batch_loop w u model output_format language device n i pre output_files a of
                (outs, a') \<Rightarrow> (outs, cancel_transcription a'))"
  using assms
proof (induction pre arbitrary: i output_files a)
  case Nil
  from Nil.prems(4) obtain audio_file audio_files where post: "post = audio_file # audio_files"
    by (cases post) auto
  from Nil.prems(1,3) show ?case
    by (simp add: post Let_def press_cancel_def cancel_transcription_def)
next
  case (Cons audio_file pre)
  from Cons.prems(2) have nb: "\<not> cancel_before u i" and nd: "\<not> cancel_during u i"
    by simp_all
  from Cons.prems(2) have rest:
    "\<forall>j. i + 1 \<le> j \<and> j < (i + 1) + length pre \<longrightarrow> \<not> cancel_before u j \<and> \<not> cancel_during u j"
    by simp
  from Cons.prems(3) have c: "cancel_before u ((i + 1) + length pre)" by simp
  obtain r a2 where bf:
    "App_batch_file w u model output_format language device n i audio_file a = (r, a2)"
    by (cases "App_batch_file w u model output_format language device n i audio_file a")
  from processing_App_batch_file [of w u model output_format language device n i audio_file a]
    bf Cons.prems(1) nd
  have p2: "processing a2" by simp
  show ?case
  proof (cases r)
    case (Inl e)
    let ?a3 = "App_log (''Error processing '' @ audio_file @ '': '' @ exc_str e) a2"
    from p2 have p3: "processing ?a3" by simp
    from Cons.IH [OF p3 rest c Cons.prems(4), of output_files] Cons.prems(1) nb bf Inl
    show ?thesis by (simp add: Let_def)
  next
    case (Inr output_file)
    from Cons.IH [OF p2 rest c Cons.prems(4), of "output_files @ [output_file]"]
      Cons.prems(1) nb bf Inr
    show ?thesis by (simp add: Let_def)
  qed
qed

subsection \<open>Batches in which every file but one succeeds\<close>

lemma output_paths_all_succeed:
  "\<forall>f \<in> set fs. \<exists>out. outcome f = Inr out \<Longrightarrow>
   output_paths outcome fs = map (\<lambda>f. projr (outcome f)) fs \<and> error_lines outcome fs = []"
  by (induction fs) auto

lemma output_paths_one_fails:
  assumes "k < length fs"
    and "outcome (fs ! k) = Inl e"
    and "\<forall>j < length fs. j \<noteq> k \<longrightarrow> (\<exists>out. outcome (fs ! j) = Inr out)"
  shows "output_paths outcome fs = map (\<lambda>f. projr (outcome f)) (take k fs @ drop (Suc k) fs)
       \<and> error_lines outcome fs = [''Error processing '' @ fs ! k @ '': '' @ exc_str e]"
  using assms
proof (induction fs arbitrary: k)
  case Nil
  then show ?case by simp
next
  case (Cons f fs)
  show ?case
  proof (cases k)
    case 0
    have "\<forall>g \<in> set fs. \<exists>out. outcome g = Inr out"
    proof
      fix g assume "g \<in> set fs"
      then obtain j where "j < length fs" and "fs ! j = g" by (auto simp: in_set_conv_nth)
      with Cons.prems(3) [rule_format, of "Suc j"] 0 show "\<exists>out. outcome g = Inr out" by simp
    qed
    from output_paths_all_succeed [OF this] Cons.prems(2) 0 show ?thesis by simp
  next
    case (Suc k')
    from Cons.prems(3) [rule_format, of 0] Suc obtain out where out: "outcome f = Inr out"
      by auto
    from Cons.prems(1) Suc have 1: "k' < length fs" by simp
    from Cons.prems(2) Suc have 2: "outcome (fs ! k') = Inl e" by simp
    have 3: "\<forall>j < length fs. j \<noteq> k' \<longrightarrow> (\<exists>out. outcome (fs ! j) = Inr out)"
    proof (intro allI impI)
      fix j assume "j < length fs" and "j \<noteq> k'"
      with Cons.prems(3) [rule_format, of "Suc j"] Suc show "\<exists>out. outcome (fs ! j) = Inr out"
        by simp
    qed
    from Cons.IH [OF 1 2 3] out Suc show ?thesis by simp
  qed
qed

lemma length_output_paths_one_fails:
  assumes "k < length fs"
  shows "length (map g (take k fs @ drop (Suc k) fs)) = length fs - 1"
  using assms by simp

section \<open>The pipeline and the worker\<close>

lemma App_batch_transcribe_loop:
  assumes "listdir w directory = Inr names"
    and "collect_audio_files directory names = audio_files"
    and "audio_files \<noteq> []"
    and "load_model_raises w model_name device = None"
  shows "App_batch_transcribe w u directory model_name output_format language device a
           = (case App_batch_loop w u (Model model_name device) output_format language device
                     (length audio_files) 0 audio_files []
                     (App_log (''Loading model: '' @ model_name @ '' on '' @ device)
                        (App_log (''Found '' @ str_nat (length audio_files)
                                @ '' audio files to process'') a)) of
                (output_files, a') \<Rightarrow> (Inr output_files, a'))"
  using assms by (simp add: App_batch_transcribe_def load_model_def Let_def)

lemma running_or_cancelled_App_batch_transcribe:
  assumes "running_or_cancelled a"
  shows "running_or_cancelled
           (snd (App_batch_transcribe w u directory model_name output_format language device a))"
proof (cases "listdir w directory")
  case (Inl e)
  with assms show ?thesis by (simp add: App_batch_transcribe_def)
next
  case (Inr names)
  let ?fs = "collect_audio_files directory names"
  let ?a2 = "App_log (''Loading model: '' @ model_name @ '' on '' @ device)
               (App_log (''Found '' @ str_nat (length ?fs) @ '' audio files to process'') a)"
  from assms have a2: "running_or_cancelled ?a2" by simp
  show ?thesis
  proof (cases "?fs = []")
    case True
    with Inr assms show ?thesis by (simp add: App_batch_transcribe_def)
  next
    case False
    show ?thesis
    proof (cases "load_model w model_name device")
      case (Inl e)
      with Inr False a2 show ?thesis by (simp add: App_batch_transcribe_def Let_def)
    next
      case model: (Inr model)
      obtain outs a3 where l:
        "App_batch_loop w u model output_format language device (length ?fs) 0 ?fs [] ?a2
           = (outs, a3)"
        by (cases "App_batch_loop w u model output_format language device (length ?fs) 0 ?fs []
              ?a2")
      from running_or_cancelled_App_batch_loop [OF a2, of w u model output_format language device
          "length ?fs" 0 ?fs "[]"] l
      have "running_or_cancelled a3" by simp
      with Inr False model l show ?thesis by (simp add: App_batch_transcribe_def Let_def)
    qed
  qed
qed

lemma progress_App_batch_transcribe:
  "progress_var
     (snd (App_batch_transcribe w u directory model_name output_format language device a))
     = progress_var a"
proof (cases "listdir w directory")
  case (Inl e)
  then show ?thesis by (simp add: App_batch_transcribe_def)
next
  case (Inr names)
  let ?fs = "collect_audio_files directory names"
  let ?a2 = "App_log (''Loading model: '' @ model_name @ '' on '' @ device)
               (App_log (''Found '' @ str_nat (length ?fs) @ '' audio files to process'') a)"
  show ?thesis
  proof (cases "?fs = []")
    case True
    with Inr show ?thesis by (simp add: App_batch_transcribe_def)
  next
    case False
    show ?thesis
    proof (cases "load_model w model_name device")
      case (Inl e)
      with Inr False show ?thesis by (simp add: App_batch_transcribe_def Let_def)
    next
      case model: (Inr model)
      obtain outs a3 where l:
        "App_batch_loop w u model output_format language device (length ?fs) 0 ?fs [] ?a2
           = (outs, a3)"
        by (cases "App_batch_loop w u model output_format language device (length ?fs) 0 ?fs []
              ?a2")
      from progress_App_batch_loop [of w u model output_format language device
          "length ?fs" 0 ?fs "[]" ?a2] l
      have "progress_var a3 = progress_var a" by simp
      with Inr False model l show ?thesis by (simp add: App_batch_transcribe_def Let_def)
    qed
  qed
qed

lemma running_or_cancelled_App_transcribe_audio:
  "running_or_cancelled a \<Longrightarrow>
   running_or_cancelled
     (snd (App_transcribe_audio w u audio_path model_name output_format language device a))"
  by (simp add: App_transcribe_audio_def Let_def running_or_cancelled_press_cancel
      split: sum.splits)

lemma progress_App_transcribe_audio:
  "progress_var
     (snd (App_transcribe_audio w u audio_path model_name output_format language device a))
     = progress_var a"
  by (simp add: App_transcribe_audio_def Let_def split: sum.splits)

lemma snd_run_pipeline:
  "snd (run_pipeline w u path model_name output_format language device a) =
     (if isdir w path
      then snd (App_batch_transcribe w u path model_name output_format language device a)
      else snd (App_transcribe_audio w u path model_name output_format language device a))"
  by (auto simp add: run_pipeline_def split: prod.splits sum.splits)

lemma running_or_cancelled_run_pipeline:
  "running_or_cancelled a \<Longrightarrow>
   running_or_cancelled
     (snd (run_pipeline w u path model_name output_format language device a))"
  by (simp add: snd_run_pipeline running_or_cancelled_App_batch_transcribe
      running_or_cancelled_App_transcribe_audio)

lemma progress_run_pipeline:
  "progress_var (snd (run_pipeline w u path model_name output_format language device a))
     = progress_var a"
  by (simp add: snd_run_pipeline progress_App_batch_transcribe progress_App_transcribe_audio)

lemma process_transcription_returned:
  assumes "run_pipeline w u (input_path a) (model_var a) (format_var a) (pipeline_language a)
             (get_device w a) (pipeline_start w a) = (None, a1)"
  shows "process_transcription w u a =
           (let a2 = (press_cancel (cancel_at_end u) a1)\<lparr>progress_var := 100\<rparr>
            in if processing a2
               then (show_messagebox ''info'' ''Success'' ''Transcription completed successfully!''
                       (App_log ''Transcription completed successfully!''
                          (a2\<lparr>status_var := ''Transcription completed!''\<rparr>)))
                    \<lparr>processing := False\<rparr>
               else a2\<lparr>processing := False\<rparr>)"
  using assms
  by (simp add: process_transcription_def pipeline_start_def pipeline_language_def Let_def)

lemma process_transcription_raised:
  assumes "run_pipeline w u (input_path a) (model_var a) (format_var a) (pipeline_language a)
             (get_device w a) (pipeline_start w a) = (Some e, a1)"
  shows "process_transcription w u a =
           (show_messagebox ''error'' ''Error''
              (''An error occurred during transcription:\<newline>'' @ exc_str e)
              (App_log (''Error: '' @ exc_str e) (a1\<lparr>status_var := ''Error occurred''\<rparr>)))
           \<lparr>processing := False\<rparr>"
  using assms
  by (simp add: process_transcription_def pipeline_start_def pipeline_language_def Let_def)

lemma pipeline_start_fields [simp]:
  "processing (pipeline_start w a) = processing a"
  "progress_var (pipeline_start w a) = 0"
  by (simp_all add: pipeline_start_def)

lemma process_transcription_ends:
  assumes "processing a"
  shows "(ended_completed (process_transcription w u a)
          \<or> ended_cancelled (process_transcription w u a)
          \<or> ended_failed (process_transcription w u a))
       \<and> (ended_completed (process_transcription w u a) \<longrightarrow>
            progress_var (process_transcription w u a) = 100)
       \<and> (ended_cancelled (process_transcription w u a) \<longrightarrow>
            progress_var (process_transcription w u a) = 100)
       \<and> (ended_failed (process_transcription w u a) \<longrightarrow>
            progress_var (process_transcription w u a) = 0)"
proof -
  let ?a0 = "pipeline_start w a"
  obtain raised a1 where rp:
    "run_pipeline w u (input_path a) (model_var a) (format_var a) (pipeline_language a)
       (get_device w a) ?a0 = (raised, a1)"
    by (cases "run_pipeline w u (input_path a) (model_var a) (format_var a) (pipeline_language a)
          (get_device w a) ?a0")
  from assms have "running_or_cancelled ?a0" by (simp add: running_or_cancelled_def)
  from running_or_cancelled_run_pipeline [OF this, of w u "input_path a" "model_var a"
      "format_var a" "pipeline_language a" "get_device w a"] rp
  have j1: "running_or_cancelled a1" by simp
  from progress_run_pipeline [of w u "input_path a" "model_var a" "format_var a"
      "pipeline_language a" "get_device w a" ?a0] rp
  have p1: "progress_var a1 = 0" by simp
  show ?thesis
  proof (cases raised)
    case None
    let ?a2 = "press_cancel (cancel_at_end u) a1"
    from j1 have "running_or_cancelled ?a2" by (rule running_or_cancelled_press_cancel)
    then have "processing ?a2 \<or> status_var ?a2 = ''Cancelled by user''"
      by (simp add: running_or_cancelled_def)
    with process_transcription_returned [of w u a a1] rp None show ?thesis
      by (auto simp add: Let_def ended_completed_def ended_cancelled_def ended_failed_def
          show_messagebox_def App_log_def)
  next
    case (Some e)
    with process_transcription_raised [of w u a e a1] rp p1 show ?thesis
      by (simp add: ended_completed_def ended_cancelled_def ended_failed_def
          show_messagebox_def App_log_def)
  qed
qed

lemma App_batch_transcribe_no_cancel:
  assumes "listdir w directory = Inr names"
    and "load_model_raises w model_name device = None"
    and "collect_audio_files directory names \<noteq> []"
    and "\<forall>j. \<not> cancel_before u j \<and> \<not> cancel_during u j"
    and "processing b"
  shows "\<exists>b'. App_batch_transcribe w u directory model_name output_format language device b
               = (Inr (output_paths
                         (file_outcome w (Model model_name device) output_format language device)
                         (collect_audio_files directory names)), b')
             \<and> processing b'
             \<and> filter is_error_line (log_text b')
                 = filter is_error_line (log_text b)
                     @ error_lines
                         (file_outcome w (Model model_name device) output_format language device)
                         (collect_audio_files directory names)"
proof -
  let ?fs = "collect_audio_files directory names"
  let ?b2 = "App_log (''Loading model: '' @ model_name @ '' on '' @ device)
               (App_log (''Found '' @ str_nat (length ?fs) @ '' audio files to process'') b)"
  let ?loop = "App_batch_loop w u (Model model_name device) output_format language device
                 (length ?fs) 0 ?fs [] ?b2"
  from assms(5) have p: "processing ?b2" by simp
  from assms(4) have nc:
    "\<forall>j. 0 \<le> j \<and> j < 0 + length ?fs \<longrightarrow> \<not> cancel_before u j \<and> \<not> cancel_during u j"
    by simp
  have l: "filter is_error_line (log_text ?b2) = filter is_error_line (log_text b)"
    by (simp add: is_error_line_def)
  from App_batch_transcribe_loop [OF assms(1) refl assms(3) assms(2), of u output_format
      language b]
  have "App_batch_transcribe w u directory model_name output_format language device b
          = (Inr (fst ?loop), snd ?loop)"
    by (simp add: case_prod_beta)
  with App_batch_loop_no_cancel [OF p nc, of w "Model model_name device" output_format language
      device "length ?fs" "[]"] l
  show ?thesis by simp
qed

lemma App_batch_transcribe_cancel_between:
  assumes "listdir w directory = Inr names"
    and "load_model_raises w model_name device = None"
    and "collect_audio_files directory names = pre @ post"
    and "post \<noteq> []"
    and "\<forall>j < length pre. \<not> cancel_before u j \<and> \<not> cancel_during u j"
    and "cancel_before u (length pre)"
    and "processing b"
  shows "\<exists>b'. App_batch_transcribe w u directory model_name output_format language device b
               = (Inr (output_paths
                         (file_outcome w (Model model_name device) output_format language device)
                         pre), b')
             \<and> \<not> processing b' \<and> status_var b' = ''Cancelled by user''"
proof -
  let ?m = "Model model_name device"
  let ?n = "length (pre @ post)"
  let ?b2 = "App_log (''Loading model: '' @ model_name @ '' on '' @ device)
               (App_log (''Found '' @ str_nat ?n @ '' audio files to process'') b)"
  let ?loop = "App_batch_loop w u ?m output_format language device ?n 0 (pre @ post) [] ?b2"
  let ?pre = "App_batch_loop w u ?m output_format language device ?n 0 pre [] ?b2"
  from assms(7) have p: "processing ?b2" by simp
  from assms(5) have nc:
    "\<forall>j. 0 \<le> j \<and> j < 0 + length pre \<longrightarrow> \<not> cancel_before u j \<and> \<not> cancel_during u j"
    by simp
  from assms(6) have c: "cancel_before u (0 + length pre)" by simp
  from assms(4) have ne: "pre @ post \<noteq> []" by simp
  from App_batch_loop_cancel_between [OF p nc c assms(4), of w ?m output_format language device
      ?n "[]"]
  have loop: "?loop = (fst ?pre, cancel_transcription (snd ?pre))"
    by (simp add: case_prod_beta)
  from App_batch_loop_no_cancel [OF p nc, of w ?m output_format language device ?n "[]"]
  have outs: "fst ?pre = output_paths (file_outcome w ?m output_format language device) pre"
    and p': "processing (snd ?pre)"
    by simp_all
  from p' have "\<not> processing (cancel_transcription (snd ?pre))"
    and "status_var (cancel_transcription (snd ?pre)) = ''Cancelled by user''"
    by (simp_all add: cancel_transcription_def)
  moreover from App_batch_transcribe_loop [OF assms(1) assms(3) ne assms(2), of u output_format
      language b]
  have "App_batch_transcribe w u directory model_name output_format language device b
          = (Inr (fst ?loop), snd ?loop)"
    by (simp add: case_prod_beta)
  ultimately show ?thesis using loop outs by simp
qed

section \<open>The command-line batch\<close>

lemma transcribe_audio_outcome:
  assumes "load_model_raises w model_name device = None"
  shows "fst (transcribe_audio w audio_file model_name output_format language (Some device) c)
           = file_outcome w (Model model_name device) output_format language device audio_file"
proof (cases "model_transcribe w (Model model_name device) audio_file
                (make_transcribe_options device language)")
  case (Inl e)
  with assms show ?thesis
    by (simp add: transcribe_audio_def file_outcome_def load_model_def Let_def)
next
  case (Inr result)
  let ?out = "splitext_root audio_file @ ''.'' @ output_format"
  show ?thesis
  proof (cases "save_transcription w ?out output_format result Map.empty")
    case (Inl e)
    then have "save_transcription w ?out output_format result (cli_disk c) = Inl e"
      by (rule save_transcription_Inl_any_disk)
    with Inl Inr assms show ?thesis
      by (simp add: transcribe_audio_def file_outcome_def load_model_def Let_def)
  next
    case (Inr d)
    then obtain d2 where "save_transcription w ?out output_format result (cli_disk c) = Inr d2"
      using save_transcription_Inr_any_disk by blast
    with Inr assms
      \<open>model_transcribe w (Model model_name device) audio_file
         (make_transcribe_options device language) = Inr result\<close>
    show ?thesis
      by (simp add: transcribe_audio_def file_outcome_def load_model_def Let_def)
  qed
qed

lemma stdout_print [simp]: "stdout (print m c) = stdout c @ [m]"
  by (simp add: print_def)

lemma error_lines_transcribe_audio:
  "filter is_error_line
     (stdout (snd (transcribe_audio w audio_file model_name output_format language device c)))
     = filter is_error_line (stdout c)"
  by (simp add: transcribe_audio_def Let_def is_error_line_def split: sum.splits option.splits)

lemma batch_loop_outcomes:
  assumes "load_model_raises w model_name device = None"
  shows "fst (batch_loop w model_name output_format language (Some device) audio_files
                output_files c)
           = output_files
               @ output_paths
                   (file_outcome w (Model model_name device) output_format language device)
                   audio_files
       \<and> filter is_error_line
           (stdout (snd (batch_loop w model_name output_format language (Some device)
                           audio_files output_files c)))
           = filter is_error_line (stdout c)
               @ error_lines
                   (file_outcome w (Model model_name device) output_format language device)
                   audio_files"
proof (induction audio_files arbitrary: output_files c)
  case Nil
  show ?case by simp
next
  case (Cons audio_file audio_files)
  obtain r c2 where ta:
    "transcribe_audio w audio_file model_name output_format language (Some device) c = (r, c2)"
    by (cases "transcribe_audio w audio_file model_name output_format language (Some device) c")
  from transcribe_audio_outcome [OF assms, of audio_file output_format language c] ta
  have r: "file_outcome w (Model model_name device) output_format language device audio_file = r"
    by simp
  from error_lines_transcribe_audio [of w audio_file model_name output_format language
      "Some device" c] ta
  have l2: "filter is_error_line (stdout c2) = filter is_error_line (stdout c)" by simp
  show ?case
  proof (cases r)
    case (Inl e)
    let ?c3 = "print (''Error processing '' @ audio_file @ '': '' @ exc_str e) c2"
    have l3: "filter is_error_line (stdout ?c3)
        = filter is_error_line (stdout c) @ [''Error processing '' @ audio_file @ '': '' @ exc_str e]"
      by (simp add: l2 is_error_line_def)
    from Cons.IH [of output_files ?c3] ta Inl r l3 show ?thesis by simp
  next
    case (Inr output_file)
    from Cons.IH [of "output_files @ [output_file]" c2] ta Inr r l2 show ?thesis by simp
  qed
qed

lemma batch_transcribe_outcomes:
  assumes "listdir w directory = Inr names"
    and "load_model_raises w model_name device = None"
    and "collect_audio_files directory names \<noteq> []"
  shows "\<exists>c'. batch_transcribe w directory model_name output_format language (Some device) c
               = (Inr (output_paths
                         (file_outcome w (Model model_name device) output_format language device)
                         (collect_audio_files directory names)), c')
             \<and> filter is_error_line (stdout c')
                 = filter is_error_line (stdout c)
                     @ error_lines
                         (file_outcome w (Model model_name device) output_format language device)
                         (collect_audio_files directory names)"
proof -
  let ?fs = "collect_audio_files directory names"
  let ?c2 = "print (''Found '' @ str_nat (length ?fs) @ '' audio files to process'') c"
  let ?loop = "batch_loop w model_name output_format language (Some device) ?fs [] ?c2"
  have l: "filter is_error_line (stdout ?c2) = filter is_error_line (stdout c)"
    by (simp add: is_error_line_def)
  from assms(1,3)
  have "batch_transcribe w directory model_name output_format language (Some device) c
          = (Inr (fst ?loop), snd ?loop)"
    by (simp add: batch_transcribe_def Let_def case_prod_beta)
  with batch_loop_outcomes [OF assms(2), of output_format language ?fs "[]" ?c2] l
  show ?thesis by simp
qed

section \<open>Progress\<close>

lemma increment_bounds: "0 < increment step \<and> increment step \<le> 1 / 2"
  by (simp add: increment_def)

lemma simulate_progress_loop_bounds:
  "\<forall>v \<in> set (simulate_progress_loop processing_at k step). step < v \<and> v < 95.5"
proof (induction processing_at k step rule: simulate_progress_loop.induct)
  case (1 processing_at k step)
  show ?case
  proof (cases "processing_at k \<and> step < 95")
    case False
    then show ?thesis by (subst simulate_progress_loop.simps) auto
  next
    case True
    let ?x = "step + increment step"
    from "1.IH" [OF True refl]
    have ih: "\<forall>v \<in> set (simulate_progress_loop processing_at (k + 1) ?x). ?x < v \<and> v < 95.5" .
    from increment_bounds [of step] True have x: "step < ?x" "?x < 95.5" by simp_all
    have "set (simulate_progress_loop processing_at k step)
            = insert ?x (set (simulate_progress_loop processing_at (k + 1) ?x))"
      using True by (subst simulate_progress_loop.simps) (simp add: Let_def)
    with ih x show ?thesis by auto
  qed
qed

lemma simulate_progress_bounds:
  "\<forall>v \<in> set (simulate_progress processing_at). 0 \<le> v \<and> v < 95.5"
  using simulate_progress_loop_bounds [of processing_at 0 0]
  by (auto simp add: simulate_progress_def)

text \<open>
  Claim C1 says that the progress is set to 100 only on success, and that a run that ends
  cancelled or failed never has its progress forced to 100. The worker writes 100 at line 250,
  before it tests the flag at line 252, so a cancelled run gets 100 as well. Here the user
  presses Cancel when two of the three files of the directory are done: the run ends
  cancelled and its progress is 100.
\<close>

theorem cancelled_run_is_forced_to_100:
  "processing demo_app
   \<and> ended_cancelled (process_transcription demo_world (cancel_after 2) demo_app)
   \<and> progress_var (process_transcription demo_world (cancel_after 2) demo_app) = 100"
  by code_simp

text \<open>
  Claim C1 as amended. The worker sets the progress to 100 whenever the pipeline returns
  without an exception, whether the user has cancelled or not: every run ends completed,
  cancelled or failed; at completed the progress is 100, at cancelled the progress is 100 as
  well, and a run that ends failed is not forced to 100 (the worker leaves the 0 that it wrote
  at the start). The progress thread never writes 100 itself: each value it writes is below
  95.5. (The writes of the two threads are modelled apart; their interleaving is not.)
\<close>

theorem progress_is_100_when_pipeline_returns:
  assumes "processing a"
  shows "(ended_completed (process_transcription w u a)
          \<or> ended_cancelled (process_transcription w u a)
          \<or> ended_failed (process_transcription w u a))
       \<and> (ended_completed (process_transcription w u a) \<longrightarrow>
            progress_var (process_transcription w u a) = 100)
       \<and> (ended_cancelled (process_transcription w u a) \<longrightarrow>
            progress_var (process_transcription w u a) = 100)
       \<and> (ended_failed (process_transcription w u a) \<longrightarrow>
            progress_var (process_transcription w u a) = 0)
       \<and> (\<forall>v \<in> set (simulate_progress processing_at). 0 \<le> v \<and> v < 95.5)"
  using process_transcription_ends [OF assms, of w u] simulate_progress_bounds [of processing_at]
  by blast

theorem progress_is_100_when_pipeline_returns_witness:
  "processing demo_app
   \<and> ended_completed (process_transcription demo_world no_cancel demo_app)
   \<and> progress_var (process_transcription demo_world no_cancel demo_app) = 100
   \<and> ended_failed (process_transcription demo_world no_cancel (demo_app\<lparr>input_path := ''d/b.mp3''\<rparr>))
   \<and> progress_var (process_transcription demo_world no_cancel (demo_app\<lparr>input_path := ''d/b.mp3''\<rparr>))
       = 0"
proof -
  have p: "processing demo_app" by (simp add: demo_app_def)
  have q: "processing (demo_app\<lparr>input_path := ''d/b.mp3''\<rparr>)" by (simp add: demo_app_def)
  have c: "ended_completed (process_transcription demo_world no_cancel demo_app)"
    by code_simp
  have f: "ended_failed (process_transcription demo_world no_cancel
             (demo_app\<lparr>input_path := ''d/b.mp3''\<rparr>))"
    by code_simp
  from progress_is_100_when_pipeline_returns [OF p, of demo_world no_cancel "\<lambda>k. True"] c
  have "progress_var (process_transcription demo_world no_cancel demo_app) = 100"
    by blast
  moreover
  from progress_is_100_when_pipeline_returns [OF q, of demo_world no_cancel "\<lambda>k. True"] f
  have "progress_var (process_transcription demo_world no_cancel
          (demo_app\<lparr>input_path := ''d/b.mp3''\<rparr>)) = 0"
    by blast
  ultimately show ?thesis using p c f by (simp only: simp_thms)
qed

section \<open>A batch with one failing file\<close>

lemma process_transcription_batch_no_cancel:
  assumes "listdir w (input_path a) = Inr names"
    and "load_model_raises w (model_var a) (get_device w a) = None"
    and "collect_audio_files (input_path a) names \<noteq> []"
    and "\<forall>j. \<not> cancel_before u j \<and> \<not> cancel_during u j"
    and "\<not> cancel_at_end u"
    and "processing a"
    and "isdir w (input_path a)"
  shows "ended_completed (process_transcription w u a)
       \<and> progress_var (process_transcription w u a) = 100
       \<and> filter is_error_line (log_text (process_transcription w u a))
           = filter is_error_line (log_text a)
               @ error_lines
                   (file_outcome w (Model (model_var a) (get_device w a)) (format_var a)
                      (pipeline_language a) (get_device w a))
                   (collect_audio_files (input_path a) names)"
proof -
  let ?a0 = "pipeline_start w a"
  from assms(6) have p0: "processing ?a0" by simp
  have l0: "filter is_error_line (log_text ?a0) = filter is_error_line (log_text a)"
    by (simp add: pipeline_start_def is_error_line_def)
  from App_batch_transcribe_no_cancel [OF assms(1,2,3,4) p0, of "format_var a"
      "pipeline_language a"]
  obtain b' where b':
    "App_batch_transcribe w u (input_path a) (model_var a) (format_var a) (pipeline_language a)
       (get_device w a) ?a0
       = (Inr (output_paths
                 (file_outcome w (Model (model_var a) (get_device w a)) (format_var a)
                    (pipeline_language a) (get_device w a))
                 (collect_audio_files (input_path a) names)), b')"
    and pb: "processing b'"
    and lb: "filter is_error_line (log_text b')
        = filter is_error_line (log_text ?a0)
            @ error_lines
                (file_outcome w (Model (model_var a) (get_device w a)) (format_var a)
                   (pipeline_language a) (get_device w a))
                (collect_audio_files (input_path a) names)"
    by blast
  from b' assms(7)
  have "run_pipeline w u (input_path a) (model_var a) (format_var a) (pipeline_language a)
          (get_device w a) ?a0 = (None, b')"
    by (simp add: run_pipeline_def)
  from process_transcription_returned [OF this] pb assms(5) lb l0
  show ?thesis
    by (simp add: Let_def ended_completed_def show_messagebox_def App_log_def is_error_line_def)
qed

text \<open>
  Claim C2 says that a batch in which one file fails returns the output paths of the other
  files plus one error entry keyed by the path of the failing file. What
  \<^verbatim>\<open>batch_transcribe\<close> returns is the list \<^verbatim>\<open>output_files\<close> and nothing else; the failure is
  printed (or logged) and not returned. Here the directory \<open>d\<close> holds three audio files and the
  engine fails on \<open>d/b.mp3\<close>: both functions return the two output paths, in which the failing
  file does not occur, and the message is the seventh line printed.
\<close>

theorem batch_returns_output_paths_only:
  "fst (batch_transcribe demo_world ''d'' ''base'' ''srt'' None None demo_cli)
     = Inr [''d/a.srt'', ''d/c.srt'']
   \<and> fst (App_batch_transcribe demo_world no_cancel ''d'' ''base'' ''srt'' None ''cpu'' demo_app)
       = Inr [''d/a.srt'', ''d/c.srt'']
   \<and> ''d/b.mp3'' \<notin> set [''d/a.srt'', ''d/c.srt'']
   \<and> stdout (snd (batch_transcribe demo_world ''d'' ''base'' ''srt'' None None demo_cli)) ! 6
       = ''Error processing d/b.mp3: corrupt audio''"
  by code_simp

text \<open>
  Claim C2 as amended. For every batch of N eligible files in which exactly one file \<open>k\<close> fails
  during inference or output writing, the batch run continues past the failure and returns the
  N - 1 output paths of the other files, in their order; the failure is not part of the
  returned value but is recorded as one line \<open>Error processing <path of k>: <message>\<close>, printed
  by the command-line function and written to the log by the application, and no other error
  line is added. For the application, when the user does not cancel, the run ends completed,
  not failed, with progress 100.
\<close>

theorem one_failing_file_is_logged_and_skipped:
  assumes "listdir w directory = Inr names"
    and "load_model_raises w model_name device = None"
    and "k < length (collect_audio_files directory names)"
    and "file_outcome w (Model model_name device) output_format language device
           (collect_audio_files directory names ! k) = Inl e"
    and "\<forall>j < length (collect_audio_files directory names). j \<noteq> k \<longrightarrow>
           (\<exists>out. file_outcome w (Model model_name device) output_format language device
                    (collect_audio_files directory names ! j) = Inr out)"
    and "\<forall>j. \<not> cancel_before u j \<and> \<not> cancel_during u j"
    and "\<not> cancel_at_end u"
    and "processing a"
    and "isdir w directory"
    and "input_path a = directory"
    and "model_var a = model_name"
    and "format_var a = output_format"
    and "pipeline_language a = language"
    and "get_device w a = device"
  shows "(\<exists>c'. batch_transcribe w directory model_name output_format language (Some device) c
                = (Inr (map (\<lambda>f. projr (file_outcome w (Model model_name device) output_format
                                           language device f))
                          (take k (collect_audio_files directory names)
                             @ drop (Suc k) (collect_audio_files directory names))), c')
              \<and> filter is_error_line (stdout c')
                  = filter is_error_line (stdout c)
                      @ [''Error processing '' @ collect_audio_files directory names ! k
                           @ '': '' @ exc_str e])
       \<and> (\<exists>b'. App_batch_transcribe w u directory model_name output_format language device
                  (pipeline_start w a)
                = (Inr (map (\<lambda>f. projr (file_outcome w (Model model_name device) output_format
                                           language device f))
                          (take k (collect_audio_files directory names)
                             @ drop (Suc k) (collect_audio_files directory names))), b'))
       \<and> length (map (\<lambda>f. projr (file_outcome w (Model model_name device) output_format
                                    language device f))
                   (take k (collect_audio_files directory names)
                      @ drop (Suc k) (collect_audio_files directory names)))
           = length (collect_audio_files directory names) - 1
       \<and> ended_completed (process_transcription w u a)
       \<and> progress_var (process_transcription w u a) = 100
       \<and> filter is_error_line (log_text (process_transcription w u a))
           = filter is_error_line (log_text a)
               @ [''Error processing '' @ collect_audio_files directory names ! k
                    @ '': '' @ exc_str e]"
proof -
  let ?fs = "collect_audio_files directory names"
  let ?oc = "file_outcome w (Model model_name device) output_format language device"
  from assms(3) have ne: "?fs \<noteq> []" by auto
  from output_paths_one_fails [of k ?fs ?oc e, OF assms(3,4,5)]
  have outs: "output_paths ?oc ?fs = map (\<lambda>f. projr (?oc f)) (take k ?fs @ drop (Suc k) ?fs)"
    and errs: "error_lines ?oc ?fs = [''Error processing '' @ ?fs ! k @ '': '' @ exc_str e]"
    by simp_all
  from batch_transcribe_outcomes [OF assms(1,2) ne, of output_format language c]
  have 1: "\<exists>c'. batch_transcribe w directory model_name output_format language (Some device) c
                = (Inr (map (\<lambda>f. projr (?oc f)) (take k ?fs @ drop (Suc k) ?fs)), c')
              \<and> filter is_error_line (stdout c')
                  = filter is_error_line (stdout c)
                      @ [''Error processing '' @ ?fs ! k @ '': '' @ exc_str e]"
    by (simp only: outs errs)
  from assms(8) have p0: "processing (pipeline_start w a)" by simp
  from App_batch_transcribe_no_cancel [OF assms(1,2) ne assms(6) p0, of output_format language]
  have 2: "\<exists>b'. App_batch_transcribe w u directory model_name output_format language device
                  (pipeline_start w a)
                = (Inr (map (\<lambda>f. projr (?oc f)) (take k ?fs @ drop (Suc k) ?fs)), b')"
    unfolding outs by blast
  from assms(3)
  have 3: "length (map (\<lambda>f. projr (?oc f)) (take k ?fs @ drop (Suc k) ?fs)) = length ?fs - 1"
    by (rule length_output_paths_one_fails)
  from assms(1,2,9) ne
  have "listdir w (input_path a) = Inr names"
    and "load_model_raises w (model_var a) (get_device w a) = None"
    and "collect_audio_files (input_path a) names \<noteq> []"
    and "isdir w (input_path a)"
    by (simp_all only: assms(10,11,14) simp_thms)
  from process_transcription_batch_no_cancel [OF this(1,2,3) assms(6,7,8) this(4)]
  have 4: "ended_completed (process_transcription w u a)
       \<and> progress_var (process_transcription w u a) = 100
       \<and> filter is_error_line (log_text (process_transcription w u a))
           = filter is_error_line (log_text a)
               @ [''Error processing '' @ ?fs ! k @ '': '' @ exc_str e]"
    by (simp only: assms(10,11,12,13,14) errs)
  from 1 2 3 4 show ?thesis by (simp only: simp_thms)
qed
lemma demo_audio_files:
  "collect_audio_files ''d'' [''a.mp3'', ''b.mp3'', ''notes.txt'', ''c.WAV'']
     = [''d/a.mp3'', ''d/b.mp3'', ''d/c.WAV'']"
  by code_simp

lemma demo_listdir:
  "listdir demo_world ''d'' = Inr [''a.mp3'', ''b.mp3'', ''notes.txt'', ''c.WAV'']"
  by (simp add: demo_world_def)

lemma demo_app_fields:
  "processing demo_app" "isdir demo_world ''d''" "input_path demo_app = ''d''"
  "model_var demo_app = ''base''" "format_var demo_app = ''srt''"
  "pipeline_language demo_app = None" "get_device demo_world demo_app = ''cpu''"
  "load_model_raises demo_world ''base'' ''cpu'' = None" "log_text demo_app = []"
  by (simp_all add: demo_app_def demo_world_def pipeline_language_def get_device_def)

lemma demo_outcomes:
  "file_outcome demo_world (Model ''base'' ''cpu'') ''srt'' None ''cpu'' ''d/a.mp3''
     = Inr ''d/a.srt''"
  "file_outcome demo_world (Model ''base'' ''cpu'') ''srt'' None ''cpu'' ''d/b.mp3''
     = Inl (Exc ''RuntimeError'' ''corrupt audio'')"
  "file_outcome demo_world (Model ''base'' ''cpu'') ''srt'' None ''cpu'' ''d/c.WAV''
     = Inr ''d/c.srt''"
  by code_simp+

theorem one_failing_file_is_logged_and_skipped_witness:
  "collect_audio_files ''d'' [''a.mp3'', ''b.mp3'', ''notes.txt'', ''c.WAV'']
     = [''d/a.mp3'', ''d/b.mp3'', ''d/c.WAV'']
   \<and> ended_completed (process_transcription demo_world no_cancel demo_app)
   \<and> progress_var (process_transcription demo_world no_cancel demo_app) = 100
   \<and> filter is_error_line (log_text (process_transcription demo_world no_cancel demo_app))
       = [''Error processing d/b.mp3: corrupt audio'']"
proof -
  let ?names = "[''a.mp3'', ''b.mp3'', ''notes.txt'', ''c.WAV'']"
  let ?oc = "file_outcome demo_world (Model ''base'' ''cpu'') ''srt'' None ''cpu''"
  have k: "1 < length (collect_audio_files ''d'' ?names)"
    by (simp add: demo_audio_files)
  have fail: "?oc (collect_audio_files ''d'' ?names ! 1) = Inl (Exc ''RuntimeError'' ''corrupt audio'')"
    by (simp add: demo_audio_files demo_outcomes)
  have ok: "\<forall>j < length (collect_audio_files ''d'' ?names). j \<noteq> 1 \<longrightarrow>
              (\<exists>out. ?oc (collect_audio_files ''d'' ?names ! j) = Inr out)"
  proof (intro allI impI)
    fix j assume "j < length (collect_audio_files ''d'' ?names)" and "j \<noteq> 1"
    then have "j = 0 \<or> j = 2" by (simp add: demo_audio_files) arith
    then show "\<exists>out. ?oc (collect_audio_files ''d'' ?names ! j) = Inr out"
      by (auto simp add: demo_audio_files demo_outcomes)
  qed
  have nc: "\<forall>j. \<not> cancel_before no_cancel j \<and> \<not> cancel_during no_cancel j"
    and nce: "\<not> cancel_at_end no_cancel"
    by (simp_all add: no_cancel_def)
  from one_failing_file_is_logged_and_skipped [OF demo_listdir demo_app_fields(8) k fail ok nc nce
      demo_app_fields(1,2,3,4,5,6,7), of demo_cli]
  have "ended_completed (process_transcription demo_world no_cancel demo_app)
      \<and> progress_var (process_transcription demo_world no_cancel demo_app) = 100
      \<and> filter is_error_line (log_text (process_transcription demo_world no_cancel demo_app))
          = filter is_error_line (log_text demo_app)
              @ [''Error processing '' @ collect_audio_files ''d'' ?names ! 1
                   @ '': '' @ exc_str (Exc ''RuntimeError'' ''corrupt audio'')]"
    by blast
  then show ?thesis by (simp add: demo_audio_files demo_app_fields)
qed

section \<open>Cancelling between two files\<close>

lemma length_output_paths_le: "length (output_paths outcome fs) \<le> length fs"
  by (induction fs) (auto split: sum.splits)

lemma length_output_paths_all_succeed:
  "\<forall>f \<in> set fs. \<exists>out. outcome f = Inr out \<Longrightarrow> length (output_paths outcome fs) = length fs"
  using output_paths_all_succeed [of fs outcome] by simp

lemma process_transcription_cancel_between:
  assumes "listdir w (input_path a) = Inr names"
    and "load_model_raises w (model_var a) (get_device w a) = None"
    and "collect_audio_files (input_path a) names = pre @ post"
    and "post \<noteq> []"
    and "\<forall>j < length pre. \<not> cancel_before u j \<and> \<not> cancel_during u j"
    and "cancel_before u (length pre)"
    and "processing a"
    and "isdir w (input_path a)"
  shows "ended_cancelled (process_transcription w u a)"
proof -
  let ?a0 = "pipeline_start w a"
  from assms(7) have p0: "processing ?a0" by simp
  from App_batch_transcribe_cancel_between [OF assms(1,2,3,4,5,6) p0, of "format_var a"
      "pipeline_language a"]
  obtain b' where b':
    "App_batch_transcribe w u (input_path a) (model_var a) (format_var a) (pipeline_language a)
       (get_device w a) ?a0
       = (Inr (output_paths
                 (file_outcome w (Model (model_var a) (get_device w a)) (format_var a)
                    (pipeline_language a) (get_device w a)) pre), b')"
    and pb: "\<not> processing b'"
    and sb: "status_var b' = ''Cancelled by user''"
    by blast
  from b' assms(8)
  have "run_pipeline w u (input_path a) (model_var a) (format_var a) (pipeline_language a)
          (get_device w a) ?a0 = (None, b')"
    by (simp add: run_pipeline_def)
  from process_transcription_returned [OF this] pb sb
  show ?thesis
    by (simp add: Let_def ended_cancelled_def)
qed

text \<open>
  Claim C3 says that a cancellation after file \<open>i\<close> and before file \<open>i + 1\<close> leaves exactly \<open>i\<close>
  output paths. A file that failed has no output path, so the number can be smaller. Here the
  user presses Cancel when two of the three files are done, the second of which failed: the
  third file is not started, the run ends cancelled, and there is one output path.
\<close>

theorem cancel_after_two_files_one_output:
  "cancel_before (cancel_after 2) 2
   \<and> fst (App_batch_transcribe demo_world (cancel_after 2) ''d'' ''base'' ''srt'' None ''cpu''
            demo_app) = Inr [''d/a.srt'']
   \<and> log_text (process_transcription demo_world (cancel_after 2) demo_app)
       = [''Starting transcription with model: base on cpu'',
          ''Found 3 audio files to process'',
          ''Loading model: base on cpu'',
          ''Transcribing: d/a.mp3'',
          ''Transcription saved to: d/a.srt'',
          ''Transcribing: d/b.mp3'',
          ''Error processing d/b.mp3: corrupt audio'',
          ''Transcription cancelled by user.'']
   \<and> ended_cancelled (process_transcription demo_world (cancel_after 2) demo_app)"
  by code_simp

text \<open>
  Claim C3 as amended. The cancellation flag is tested before each file and never while a
  file is being processed: what a started file comes to and what it writes do not depend on
  the presses of the Cancel button. If the cancellation is requested after file \<open>i\<close> has finished and before file
  \<open>i + 1\<close> starts, the loop does what it does for the first \<open>i\<close> files and then nothing but the
  cancellation, so file \<open>i + 1\<close> is not started; the output paths produced are those of the
  files among the first \<open>i\<close> that succeeded (at most \<open>i\<close>, and exactly \<open>i\<close> when none of them
  failed); and the run ends cancelled.
\<close>

theorem cancel_between_files_stops_the_batch:
  assumes "listdir w directory = Inr names"
    and "load_model_raises w model_name device = None"
    and "collect_audio_files directory names = pre @ post"
    and "post \<noteq> []"
    and "\<forall>j < length pre. \<not> cancel_before u j \<and> \<not> cancel_during u j"
    and "cancel_before u (length pre)"
    and "processing a"
    and "isdir w directory"
    and "input_path a = directory"
    and "model_var a = model_name"
    and "format_var a = output_format"
    and "pipeline_language a = language"
    and "get_device w a = device"
  shows "(\<forall>b. processing b \<longrightarrow>
            App_batch_loop w u (Model model_name device) output_format language device
              (length (pre @ post)) 0 (pre @ post) [] b
            = (case App_batch_loop w u (Model model_name device) output_format language device
                      (length (pre @ post)) 0 pre [] b of
                 (outs, b') \<Rightarrow> (outs, cancel_transcription b')))
       \<and> (\<exists>b'. App_batch_transcribe w u directory model_name output_format language device
                  (pipeline_start w a)
                = (Inr (output_paths
                          (file_outcome w (Model model_name device) output_format language device)
                          pre), b')
              \<and> \<not> processing b' \<and> status_var b' = ''Cancelled by user'')
       \<and> length (output_paths
                   (file_outcome w (Model model_name device) output_format language device) pre)
           \<le> length pre
       \<and> ((\<forall>f \<in> set pre. \<exists>out. file_outcome w (Model model_name device) output_format language
                                  device f = Inr out) \<longrightarrow>
            length (output_paths
                      (file_outcome w (Model model_name device) output_format language device)
                      pre)
              = length pre)
       \<and> (\<forall>n i f b. fst (App_batch_file w u (Model model_name device) output_format language
                            device n i f b)
                      = file_outcome w (Model model_name device) output_format language device f)
       \<and> (\<forall>n i f b. disk (snd (App_batch_file w u (Model model_name device) output_format
                                   language device n i f b))
                      = disk (snd (App_batch_file w no_cancel (Model model_name device)
                                     output_format language device n i f b)))
       \<and> ended_cancelled (process_transcription w u a)"
proof (intro conjI allI impI)
  from assms(5) have nc:
    "\<forall>j. 0 \<le> j \<and> j < 0 + length pre \<longrightarrow> \<not> cancel_before u j \<and> \<not> cancel_during u j"
    by simp
  from assms(6) have c: "cancel_before u (0 + length pre)" by simp
  show "App_batch_loop w u (Model model_name device) output_format language device
          (length (pre @ post)) 0 (pre @ post) [] b
        = (case App_batch_loop w u (Model model_name device) output_format language device
                  (length (pre @ post)) 0 pre [] b of
             (outs, b') \<Rightarrow> (outs, cancel_transcription b'))"
    if "processing b" for b
    using that nc c assms(4) by (rule App_batch_loop_cancel_between)
  from assms(7) have p0: "processing (pipeline_start w a)" by simp
  from assms(1,2,3,4,5,6) p0
  show "\<exists>b'. App_batch_transcribe w u directory model_name output_format language device
                (pipeline_start w a)
              = (Inr (output_paths
                        (file_outcome w (Model model_name device) output_format language device)
                        pre), b')
            \<and> \<not> processing b' \<and> status_var b' = ''Cancelled by user''"
    by (rule App_batch_transcribe_cancel_between)
  show "length (output_paths
                  (file_outcome w (Model model_name device) output_format language device) pre)
          \<le> length pre"
    by (rule length_output_paths_le)
  show "length (output_paths
                  (file_outcome w (Model model_name device) output_format language device) pre)
          = length pre"
    if "\<forall>f \<in> set pre. \<exists>out. file_outcome w (Model model_name device) output_format language
                               device f = Inr out"
    using that by (rule length_output_paths_all_succeed)
  show "fst (App_batch_file w u (Model model_name device) output_format language device n i f b)
          = file_outcome w (Model model_name device) output_format language device f"
    for n i f b
    by (rule App_batch_file_outcome)
  show "disk (snd (App_batch_file w u (Model model_name device) output_format language device
                     n i f b))
          = disk (snd (App_batch_file w no_cancel (Model model_name device) output_format
                         language device n i f b))"
    for n i f b
    by (rule App_batch_file_disk_any_user)
  from assms(1,2,3,8)
  have "listdir w (input_path a) = Inr names"
    and "load_model_raises w (model_var a) (get_device w a) = None"
    and "collect_audio_files (input_path a) names = pre @ post"
    and "isdir w (input_path a)"
    by (simp_all only: assms(9,10,13) simp_thms)
  from this(1,2,3) assms(4,5,6,7) this(4)
  show "ended_cancelled (process_transcription w u a)"
    by (rule process_transcription_cancel_between)
qed

theorem cancel_between_files_stops_the_batch_witness:
  "collect_audio_files ''d'' [''a.mp3'', ''b.mp3'', ''notes.txt'', ''c.WAV'']
     = [''d/a.mp3''] @ [''d/b.mp3'', ''d/c.WAV'']
   \<and> cancel_before (cancel_after 1) (length [''d/a.mp3''])
   \<and> (\<exists>b'. App_batch_transcribe demo_world (cancel_after 1) ''d'' ''base'' ''srt'' None ''cpu''
              (pipeline_start demo_world demo_app) = (Inr [''d/a.srt''], b'))
   \<and> ended_cancelled (process_transcription demo_world (cancel_after 1) demo_app)"
proof -
  let ?names = "[''a.mp3'', ''b.mp3'', ''notes.txt'', ''c.WAV'']"
  let ?oc = "file_outcome demo_world (Model ''base'' ''cpu'') ''srt'' None ''cpu''"
  have fs: "collect_audio_files ''d'' ?names = [''d/a.mp3''] @ [''d/b.mp3'', ''d/c.WAV'']"
    by (simp add: demo_audio_files)
  have ne: "[''d/b.mp3'', ''d/c.WAV''] \<noteq> []" by simp
  have nc: "\<forall>j < length [''d/a.mp3''].
              \<not> cancel_before (cancel_after 1) j \<and> \<not> cancel_during (cancel_after 1) j"
    by (simp add: cancel_after_def)
  have c: "cancel_before (cancel_after 1) (length [''d/a.mp3''])"
    by (simp add: cancel_after_def)
  have outs: "output_paths ?oc [''d/a.mp3''] = [''d/a.srt'']"
    by (simp add: demo_outcomes)
  from cancel_between_files_stops_the_batch [OF demo_listdir demo_app_fields(8) fs ne nc c
      demo_app_fields(1,2,3,4,5,6,7)]
  have "(\<exists>b'. App_batch_transcribe demo_world (cancel_after 1) ''d'' ''base'' ''srt'' None ''cpu''
              (pipeline_start demo_world demo_app)
            = (Inr (output_paths ?oc [''d/a.mp3'']), b')
          \<and> \<not> processing b' \<and> status_var b' = ''Cancelled by user'')
      \<and> ended_cancelled (process_transcription demo_world (cancel_after 1) demo_app)"
    by blast
  with fs c show ?thesis unfolding outs by blast
qed

end
